theory Spec2Isabelle
  imports Main "HOL-Library.Multiset"
begin

section \<open>Data model (news/models.py)\<close>

text \<open>
  Primary keys are natural numbers, points in time are integers (seconds).
  \<open>CustomUser.ROLE_CHOICES\<close> and the two status choice lists are enumerations.
  \<open>RoleApplication.applied_role\<close> is assigned to \<open>CustomUser.role\<close> as it is, so both
  share the type \<open>role\<close>.
\<close>

datatype role = Reader | Journalist | Editor | Publisher

datatype status = Pending | Approved | Rejected

text \<open>\<open>CustomUser\<close>: \<open>u_groups\<close> holds the groups of the user, a group being identified
  by the role whose capitalised name it carries. An object that was never saved has the
  primary key \<open>0\<close> (the test \<open>if self.pk\<close> fails for it); the keys the database assigns
  start at \<open>1\<close>.\<close>

record user =
  u_id :: nat
  u_username :: string
  u_email :: string
  u_password :: string
  u_role :: role
  u_is_staff :: bool
  u_groups :: "role list"

record role_application =
  ra_id :: nat
  ra_user :: nat
  ra_applied_role :: role
  ra_motivation :: string
  ra_status :: status

record publisher =
  p_id :: nat
  p_user :: nat
  p_name :: string

record editor =
  e_id :: nat
  e_user :: nat
  e_publisher :: nat

record journalist =
  j_id :: nat
  j_user :: nat
  j_publisher :: nat

record article =
  a_id :: nat
  a_title :: string
  a_content :: string
  a_journalist :: nat
  a_publisher :: nat
  a_status :: status
  a_created_at :: int

record newsletter =
  n_id :: nat
  n_title :: string
  n_content :: string
  n_journalist :: nat
  n_publisher :: nat
  n_created_at :: int

record journalist_subscription =
  js_reader :: nat
  js_journalist :: nat
  js_is_active :: bool

record publisher_subscription =
  ps_reader :: nat
  ps_publisher :: nat
  ps_is_active :: bool

record reset_token =
  rt_user :: nat
  rt_token :: string
  rt_expiry_date :: int
  rt_used :: bool

text \<open>Outgoing mail, one constructor for each builder of \<open>EmailBuilder\<close> that the
  modelled views call; the first argument is the recipient address.\<close>

datatype mail =
    RoleApprovedEmail string role
  | RoleRejectedEmail string role
  | ArticleStatusEmail string nat status
  | NewArticleNotificationEmail string nat

text \<open>The database and the mail handed to the mail backend so far. Every table is the
  list of its rows in insertion order.\<close>

record db =
  users :: "user list"
  role_applications :: "role_application list"
  publishers :: "publisher list"
  editors :: "editor list"
  journalists :: "journalist list"
  articles :: "article list"
  newsletters :: "newsletter list"
  journalist_subscriptions :: "journalist_subscription list"
  publisher_subscriptions :: "publisher_subscription list"
  reset_tokens :: "reset_token list"
  outbox :: "mail list"

section \<open>Rows by key\<close>

text \<open>The key the database gives a new row: one more than every key of the table.\<close>

definition next_id :: "nat list \<Rightarrow> nat" where
  "next_id ids = Suc (fold max ids 0)"

definition get_user :: "db \<Rightarrow> nat \<Rightarrow> user option" where
  "get_user st uid = find (\<lambda>u. u_id u = uid) (users st)"

definition get_application :: "db \<Rightarrow> nat \<Rightarrow> role_application option" where
  "get_application st pk = find (\<lambda>r. ra_id r = pk) (role_applications st)"

definition get_publisher :: "db \<Rightarrow> nat \<Rightarrow> publisher option" where
  "get_publisher st pk = find (\<lambda>p. p_id p = pk) (publishers st)"

definition get_journalist :: "db \<Rightarrow> nat \<Rightarrow> journalist option" where
  "get_journalist st pk = find (\<lambda>j. j_id j = pk) (journalists st)"

definition get_article :: "db \<Rightarrow> nat \<Rightarrow> article option" where
  "get_article st pk = find (\<lambda>a. a_id a = pk) (articles st)"

text \<open>The reverse one-to-one accessors \<open>user.editor_profile\<close> and
  \<open>user.journalist_profile\<close>; \<open>None\<close> is \<open>RelatedObjectDoesNotExist\<close>.\<close>

definition editor_profile :: "db \<Rightarrow> nat \<Rightarrow> editor option" where
  "editor_profile st uid = find (\<lambda>e. e_user e = uid) (editors st)"

definition journalist_profile :: "db \<Rightarrow> nat \<Rightarrow> journalist option" where
  "journalist_profile st uid = find (\<lambda>j. j_user j = uid) (journalists st)"

text \<open>Python's \<open>str.strip()\<close> on the characters of the Latin-1 range.\<close>

definition isspace :: "char \<Rightarrow> bool" where
  "isspace c = ((of_char c :: nat) \<in> {9, 10, 11, 12, 13, 28, 29, 30, 31, 32, 133, 160})"

definition strip :: "string \<Rightarrow> string" where
  "strip s = rev (dropWhile isspace (rev (dropWhile isspace s)))"

section \<open>CustomUser.save (news/models.py)\<close>

text \<open>\<open>CustomUser._deactivate_subscriptions\<close>: both
  \<open>filter(reader=self, is_active=True).update(is_active=False)\<close>.\<close>

definition deactivate_subscriptions :: "db \<Rightarrow> nat \<Rightarrow> db" where
  "deactivate_subscriptions st uid =
     st\<lparr>journalist_subscriptions :=
          map (\<lambda>s. if js_reader s = uid \<and> js_is_active s then s\<lparr>js_is_active := False\<rparr> else s)
            (journalist_subscriptions st),
        publisher_subscriptions :=
          map (\<lambda>s. if ps_reader s = uid \<and> ps_is_active s then s\<lparr>ps_is_active := False\<rparr> else s)
            (publisher_subscriptions st)\<rparr>"

text \<open>\<open>CustomUser.save\<close>. The old role is read from the stored row when the object has a
  key and a row; \<open>super().save()\<close> updates the row of that key, or inserts (under a new key
  when the object has none); the groups become the one group of the role; the
  subscriptions are deactivated when the stored role was reader and the new one is not.
  The result is the database and the object as saved.\<close>

definition user_save :: "db \<Rightarrow> user \<Rightarrow> db \<times> user" where
  "user_save st self =
     (let old_user = (if u_id self \<noteq> 0 then get_user st (u_id self) else None);
          old_role = map_option u_role old_user;
          is_role_changing =
            (case old_user of None \<Rightarrow> False | Some old \<Rightarrow> u_role old \<noteq> u_role self);
          saved = (if u_id self = 0 then self\<lparr>u_id := next_id (map u_id (users st))\<rparr> else self)
                    \<lparr>u_groups := [u_role self]\<rparr>;
          st1 = st\<lparr>users :=
                  (if list_ex (\<lambda>u. u_id u = u_id saved) (users st)
                   then map (\<lambda>u. if u_id u = u_id saved then saved else u) (users st)
                   else users st @ [saved])\<rparr>
      in if is_role_changing \<and> old_role = Some Reader \<and> u_role self \<noteq> Reader
         then (deactivate_subscriptions st1 (u_id saved), saved)
         else (st1, saved))"

section \<open>Mail (news/utils.py, news/emails.py)\<close>

text \<open>The exceptions that the modelled code raises.\<close>

datatype exn =
    DoesNotExist
  | MultipleObjectsReturned
  | IntegrityError
  | ValueError
  | BadHeaderError

text \<open>The address a message goes to.\<close>

fun recipient :: "mail \<Rightarrow> string" where
  "recipient (RoleApprovedEmail x _) = x"
| "recipient (RoleRejectedEmail x _) = x"
| "recipient (ArticleStatusEmail x _ _) = x"
| "recipient (NewArticleNotificationEmail x _) = x"

text \<open>\<open>EmailMessage.send()\<close>. A message without a non-empty recipient is dropped and
  nothing is raised. A header with a line break is refused with \<open>BadHeaderError\<close> when
  the message is built; the headers that come from the database are the address and,
  for the mails about an article, the title in the subject. Any other message is handed
  to the mail backend, which is taken to accept it: \<open>outbox\<close> lists these messages.

  \<open>delivered\<close> is what reaches the backend when \<open>send()\<close> is called inside a \<open>try\<close>
  block that swallows the exception (the senders of \<open>utils.py\<close>); \<open>send\<close> is the call of
  the role application views, which catch nothing and whose subjects are fixed texts. A
  related row that is missing raises inside the \<open>try\<close> blocks of the senders as well.\<close>

definition multi_line :: "string \<Rightarrow> bool" where
  "multi_line s = (CHR 0x0A \<in> set s \<or> CHR 0x0D \<in> set s)"

definition delivered :: "string \<Rightarrow> mail \<Rightarrow> mail list" where
  "delivered title m =
     (if recipient m = [] \<or> multi_line title \<or> multi_line (recipient m) then [] else [m])"

definition send :: "db \<Rightarrow> mail \<Rightarrow> exn + db" where
  "send st m =
     (if recipient m = [] then Inr st
      else if multi_line (recipient m) then Inl BadHeaderError
      else Inr (st\<lparr>outbox := outbox st @ [m]\<rparr>))"

definition send_article_approval_notification :: "db \<Rightarrow> article \<Rightarrow> db" where
  "send_article_approval_notification st article =
     (case get_journalist st (a_journalist article) of
        None \<Rightarrow> st
      | Some j \<Rightarrow>
          (case get_user st (j_user j) of
             None \<Rightarrow> st
           | Some journalist_user \<Rightarrow>
               st\<lparr>outbox := outbox st @
                    delivered (a_title article)
                      (ArticleStatusEmail (u_email journalist_user) (a_id article)
                         (a_status article))\<rparr>))"

text \<open>\<open>EmailBuilder.build_new_article_notification_email\<close> reads the article's
  journalist, that journalist's user and the article's publisher.\<close>

definition build_new_article_notification_email :: "db \<Rightarrow> user \<Rightarrow> article \<Rightarrow> mail option" where
  "build_new_article_notification_email st subscriber_user article =
     (case get_journalist st (a_journalist article) of
        None \<Rightarrow> None
      | Some j \<Rightarrow>
          (case get_user st (j_user j) of
             None \<Rightarrow> None
           | Some _ \<Rightarrow>
               (case get_publisher st (a_publisher article) of
                  None \<Rightarrow> None
                | Some _ \<Rightarrow>
                    Some (NewArticleNotificationEmail (u_email subscriber_user)
                            (a_id article)))))"

text \<open>The loop over \<open>all_subscribers\<close> (the readers of the subscription rows), with the
  set \<open>subscriber_emails\<close> of the addresses seen so far; the result is the mail that
  reaches the backend. A reader that is missing raises outside the inner \<open>try\<close> and ends
  the loop.\<close>

fun notify_subscribers :: "db \<Rightarrow> article \<Rightarrow> nat list \<Rightarrow> string list \<Rightarrow> mail list" where
  "notify_subscribers st article [] subscriber_emails = []"
| "notify_subscribers st article (r # rs) subscriber_emails =
     (case get_user st r of
        None \<Rightarrow> []
      | Some subscriber_user \<Rightarrow>
          if u_email subscriber_user \<notin> set subscriber_emails then
            (case build_new_article_notification_email st subscriber_user article of
               None \<Rightarrow>
                 notify_subscribers st article rs (u_email subscriber_user # subscriber_emails)
             | Some m \<Rightarrow>
                 delivered (a_title article) m
                 @ notify_subscribers st article rs
                     (u_email subscriber_user # subscriber_emails))
          else notify_subscribers st article rs subscriber_emails)"

definition send_article_subscriber_notifications :: "db \<Rightarrow> article \<Rightarrow> db" where
  "send_article_subscriber_notifications st article =
     (if a_status article \<noteq> Approved then st
      else
        (case get_journalist st (a_journalist article) of
           None \<Rightarrow> st
         | Some j \<Rightarrow>
             (case get_publisher st (a_publisher article) of
                None \<Rightarrow> st
              | Some p \<Rightarrow>
                  (let journalist_subscribers =
                         filter (\<lambda>s. js_journalist s = j_id j \<and> js_is_active s)
                           (journalist_subscriptions st);
                       publisher_subscribers =
                         filter (\<lambda>s. ps_publisher s = p_id p \<and> ps_is_active s)
                           (publisher_subscriptions st);
                       all_subscribers =
                         map js_reader journalist_subscribers
                         @ map ps_reader publisher_subscribers
                   in st\<lparr>outbox := outbox st @
                           notify_subscribers st article all_subscribers []\<rparr>))))"

text \<open>\<open>generate_reset_url\<close>. The functions of the libraries are parameters: SHA-1 (as a
  hexadecimal digest), Django's \<open>make_password\<close> and \<open>validate_password\<close>. The random
  token of \<open>secrets.token_urlsafe(16)\<close> is the argument \<open>token\<close>. The token column is
  unique, so a second row of the same digest is refused.\<close>

record library =
  sha1_hexdigest :: "string \<Rightarrow> string"
  make_password :: "string \<Rightarrow> string"
  validate_password :: "string \<Rightarrow> bool"

definition generate_reset_url ::
  "library \<Rightarrow> db \<Rightarrow> user \<Rightarrow> string \<Rightarrow> int \<Rightarrow> exn + db \<times> string" where
  "generate_reset_url lib st user token now =
     (let expiry_date = now + 5 * 60;
          hashed = sha1_hexdigest lib token
      in if list_ex (\<lambda>r. rt_token r = hashed) (reset_tokens st) then Inl IntegrityError
         else
           Inr (st\<lparr>reset_tokens := reset_tokens st @
                     [\<lparr>rt_user = u_id user, rt_token = hashed,
                       rt_expiry_date = expiry_date, rt_used = False\<rparr>]\<rparr>,
                ''http://127.0.0.1:8000/reset_password/'' @ token @ ''/''))"

section \<open>Page views (news/views.py)\<close>

text \<open>What a view answers: the redirect of \<open>login_required\<close> and
  \<open>staff_member_required\<close>, a 404, a redirect with the level of the message it leaves (if
  any), a rendered page, or an exception that leaves the view. Each view takes the
  database and returns it as the request leaves it; every \<open>save()\<close> is committed when it
  runs (Django's autocommit).\<close>

datatype level = MsgSuccess | MsgInfo | MsgWarning | MsgError

datatype view_result =
    LoginRequired
  | Http404
  | Redirect "level option"
  | Rendered
  | Raised exn

datatype http_method = GET | POST

text \<open>\<open>register\<close>: the validity of \<open>RegisterForm\<close> is the framework's and a parameter.\<close>

definition register ::
  "db \<Rightarrow> http_method \<Rightarrow> bool \<Rightarrow> string \<Rightarrow> string \<Rightarrow> string \<Rightarrow> db \<times> view_result" where
  "register st meth form_is_valid username email password =
     (if meth = POST \<and> form_is_valid then
        (let user = \<lparr>u_id = 0, u_username = username, u_email = email,
                     u_password = password, u_role = Reader, u_is_staff = False,
                     u_groups = []\<rparr>
         in (fst (user_save st user), Redirect (Some MsgSuccess)))
      else (st, Rendered))"

text \<open>A \<open>CharField\<close> of a form or of a serializer refuses a value that holds the null
  character.\<close>

definition has_null :: "string \<Rightarrow> bool" where
  "has_null s = (CHR 0x00 \<in> set s)"

text \<open>\<open>RoleApplicationForm\<close>: \<open>applied_role\<close> is one of the choices of
  \<open>RoleApplication.ROLE_CHOICES\<close> and \<open>motivation\<close> is required.\<close>

definition role_application_form_is_valid :: "role \<Rightarrow> string \<Rightarrow> bool" where
  "role_application_form_is_valid applied_role motivation =
     (applied_role \<noteq> Reader \<and> strip motivation \<noteq> [] \<and> \<not> has_null motivation)"

definition apply_for_role ::
  "db \<Rightarrow> nat \<Rightarrow> http_method \<Rightarrow> role \<Rightarrow> string \<Rightarrow> db \<times> view_result" where
  "apply_for_role st uid meth applied_role motivation =
     (case get_user st uid of
        None \<Rightarrow> (st, LoginRequired)
      | Some u \<Rightarrow>
          if u_role u \<noteq> Reader then (st, Redirect (Some MsgWarning))
          else if list_ex (\<lambda>r. ra_user r = uid \<and> ra_status r = Pending) (role_applications st)
          then (st, Rendered)
          else if meth = POST \<and> role_application_form_is_valid applied_role motivation then
            (st\<lparr>role_applications := role_applications st @
                  [\<lparr>ra_id = next_id (map ra_id (role_applications st)), ra_user = uid,
                    ra_applied_role = applied_role, ra_motivation = strip motivation,
                    ra_status = Pending\<rparr>]\<rparr>,
             Rendered)
          else (st, Rendered))"

text \<open>\<open>order_by("-created_at")\<close>: newest first.\<close>

definition order_by_created_desc :: "article list \<Rightarrow> article list" where
  "order_by_created_desc xs = sort_key (\<lambda>a. - a_created_at a) xs"

definition newsletters_by_created_desc :: "newsletter list \<Rightarrow> newsletter list" where
  "newsletters_by_created_desc xs = sort_key (\<lambda>n. - n_created_at n) xs"

definition article_list :: "db \<Rightarrow> nat \<Rightarrow> view_result + article list" where
  "article_list st uid =
     (case get_user st uid of
        None \<Rightarrow> Inl LoginRequired
      | Some _ \<Rightarrow> Inr (order_by_created_desc (filter (\<lambda>a. a_status a = Approved) (articles st))))"

definition newsletter_list :: "db \<Rightarrow> nat \<Rightarrow> view_result + newsletter list" where
  "newsletter_list st uid =
     (case get_user st uid of
        None \<Rightarrow> Inl LoginRequired
      | Some _ \<Rightarrow> Inr (newsletters_by_created_desc (newsletters st)))"

text \<open>\<open>article.save()\<close> of a stored article.\<close>

definition article_save :: "db \<Rightarrow> article \<Rightarrow> db" where
  "article_save st article =
     st\<lparr>articles := map (\<lambda>r. if a_id r = a_id article then article else r) (articles st)\<rparr>"

text \<open>\<open>approve_article\<close> and \<open>reject_article\<close>. \<open>post_article_to_twitter\<close> catches every
  exception of its own and does not touch the database.\<close>

definition approve_article :: "db \<Rightarrow> nat \<Rightarrow> nat \<Rightarrow> db \<times> view_result" where
  "approve_article st uid pk =
     (case get_user st uid of
        None \<Rightarrow> (st, LoginRequired)
      | Some u \<Rightarrow>
          (case get_article st pk of
             None \<Rightarrow> (st, Http404)
           | Some article \<Rightarrow>
               if u_role u = Editor then
                 (case editor_profile st uid of
                    None \<Rightarrow> (st, Raised DoesNotExist)
                  | Some e \<Rightarrow>
                      if a_publisher article = e_publisher e then
                        (let article' = article\<lparr>a_status := Approved\<rparr>;
                             st1 = article_save st article';
                             st2 = send_article_approval_notification st1 article';
                             st3 = send_article_subscriber_notifications st2 article'
                         in (st3, Redirect (Some MsgSuccess)))
                      else (st, Redirect (Some MsgError)))
               else (st, Redirect (Some MsgError))))"

definition reject_article :: "db \<Rightarrow> nat \<Rightarrow> nat \<Rightarrow> db \<times> view_result" where
  "reject_article st uid pk =
     (case get_user st uid of
        None \<Rightarrow> (st, LoginRequired)
      | Some u \<Rightarrow>
          (case get_article st pk of
             None \<Rightarrow> (st, Http404)
           | Some article \<Rightarrow>
               if u_role u = Editor then
                 (case editor_profile st uid of
                    None \<Rightarrow> (st, Raised DoesNotExist)
                  | Some e \<Rightarrow>
                      if a_publisher article = e_publisher e then
                        (let article' = article\<lparr>a_status := Rejected\<rparr>;
                             st1 = article_save st article';
                             st2 = send_article_approval_notification st1 article'
                         in (st2, Redirect (Some MsgInfo)))
                      else (st, Redirect (Some MsgError)))
               else (st, Redirect (Some MsgError))))"

text \<open>\<open>ArticleForm\<close>, as the framework derives it from the fields \<open>title\<close> (at most 255
  characters) and \<open>content\<close> of \<open>Article\<close>: both required, both stripped, neither with
  a null character.\<close>

definition article_form_is_valid :: "string \<Rightarrow> string \<Rightarrow> bool" where
  "article_form_is_valid title content =
     (strip title \<noteq> [] \<and> length (strip title) \<le> 255 \<and> \<not> has_null title
      \<and> strip content \<noteq> [] \<and> \<not> has_null content)"

text \<open>\<open>submit_article\<close>; the status of the new row is the default of the field.\<close>

definition submit_article ::
  "db \<Rightarrow> nat \<Rightarrow> http_method \<Rightarrow> string \<Rightarrow> string \<Rightarrow> int \<Rightarrow> db \<times> view_result" where
  "submit_article st uid meth title content now =
     (case get_user st uid of
        None \<Rightarrow> (st, LoginRequired)
      | Some u \<Rightarrow>
          if u_role u \<noteq> Journalist then (st, Redirect (Some MsgWarning))
          else if meth = POST \<and> article_form_is_valid title content then
            (case journalist_profile st uid of
               None \<Rightarrow> (st, Raised DoesNotExist)
             | Some j \<Rightarrow>
                 (st\<lparr>articles := articles st @
                       [\<lparr>a_id = next_id (map a_id (articles st)), a_title = strip title,
                         a_content = strip content, a_journalist = j_id j,
                         a_publisher = j_publisher j, a_status = Pending,
                         a_created_at = now\<rparr>]\<rparr>,
                  Redirect (Some MsgSuccess)))
          else (st, Rendered))"

subsection \<open>Subscriptions\<close>

text \<open>\<open>get_or_create(reader, journalist, defaults={"is_active": True})\<close> looks the pair up;
  more than one row of the pair is \<open>MultipleObjectsReturned\<close>.\<close>

definition subscribe_to_journalist :: "db \<Rightarrow> nat \<Rightarrow> nat \<Rightarrow> db \<times> view_result" where
  "subscribe_to_journalist st uid journalist_id =
     (case get_user st uid of
        None \<Rightarrow> (st, LoginRequired)
      | Some u \<Rightarrow>
          if u_role u \<noteq> Reader then (st, Redirect (Some MsgError))
          else
            (case get_journalist st journalist_id of
               None \<Rightarrow> (st, Http404)
             | Some j \<Rightarrow>
                 (case filter (\<lambda>s. js_reader s = uid \<and> js_journalist s = j_id j)
                         (journalist_subscriptions st) of
                    [] \<Rightarrow>
                      (st\<lparr>journalist_subscriptions := journalist_subscriptions st @
                            [\<lparr>js_reader = uid, js_journalist = j_id j, js_is_active = True\<rparr>]\<rparr>,
                       Redirect (Some MsgSuccess))
                  | [subscription] \<Rightarrow>
                      if \<not> js_is_active subscription then
                        (st\<lparr>journalist_subscriptions :=
                              map (\<lambda>s. if js_reader s = uid \<and> js_journalist s = j_id j
                                        then s\<lparr>js_is_active := True\<rparr> else s)
                                (journalist_subscriptions st)\<rparr>,
                         Redirect (Some MsgSuccess))
                      else (st, Redirect (Some MsgInfo))
                  | _ \<Rightarrow> (st, Raised MultipleObjectsReturned))))"

text \<open>\<open>get(reader, journalist, is_active=True)\<close>: \<open>DoesNotExist\<close> is caught by the view.\<close>

definition unsubscribe_from_journalist :: "db \<Rightarrow> nat \<Rightarrow> nat \<Rightarrow> db \<times> view_result" where
  "unsubscribe_from_journalist st uid journalist_id =
     (case get_user st uid of
        None \<Rightarrow> (st, LoginRequired)
      | Some u \<Rightarrow>
          if u_role u \<noteq> Reader then (st, Redirect (Some MsgError))
          else
            (case get_journalist st journalist_id of
               None \<Rightarrow> (st, Http404)
             | Some j \<Rightarrow>
                 (case filter (\<lambda>s. js_reader s = uid \<and> js_journalist s = j_id j \<and> js_is_active s)
                         (journalist_subscriptions st) of
                    [] \<Rightarrow> (st, Redirect (Some MsgInfo))
                  | [subscription] \<Rightarrow>
                      (st\<lparr>journalist_subscriptions :=
                            map (\<lambda>s. if js_reader s = uid \<and> js_journalist s = j_id j
                                         \<and> js_is_active s
                                      then s\<lparr>js_is_active := False\<rparr> else s)
                              (journalist_subscriptions st)\<rparr>,
                       Redirect (Some MsgSuccess))
                  | _ \<Rightarrow> (st, Raised MultipleObjectsReturned))))"

definition subscribe_to_publisher :: "db \<Rightarrow> nat \<Rightarrow> nat \<Rightarrow> db \<times> view_result" where
  "subscribe_to_publisher st uid publisher_id =
     (case get_user st uid of
        None \<Rightarrow> (st, LoginRequired)
      | Some u \<Rightarrow>
          if u_role u \<noteq> Reader then (st, Redirect (Some MsgError))
          else
            (case get_publisher st publisher_id of
               None \<Rightarrow> (st, Http404)
             | Some p \<Rightarrow>
                 (case filter (\<lambda>s. ps_reader s = uid \<and> ps_publisher s = p_id p)
                         (publisher_subscriptions st) of
                    [] \<Rightarrow>
                      (st\<lparr>publisher_subscriptions := publisher_subscriptions st @
                            [\<lparr>ps_reader = uid, ps_publisher = p_id p, ps_is_active = True\<rparr>]\<rparr>,
                       Redirect (Some MsgSuccess))
                  | [subscription] \<Rightarrow>
                      if \<not> ps_is_active subscription then
                        (st\<lparr>publisher_subscriptions :=
                              map (\<lambda>s. if ps_reader s = uid \<and> ps_publisher s = p_id p
                                        then s\<lparr>ps_is_active := True\<rparr> else s)
                                (publisher_subscriptions st)\<rparr>,
                         Redirect (Some MsgSuccess))
                      else (st, Redirect (Some MsgInfo))
                  | _ \<Rightarrow> (st, Raised MultipleObjectsReturned))))"

definition unsubscribe_from_publisher :: "db \<Rightarrow> nat \<Rightarrow> nat \<Rightarrow> db \<times> view_result" where
  "unsubscribe_from_publisher st uid publisher_id =
     (case get_user st uid of
        None \<Rightarrow> (st, LoginRequired)
      | Some u \<Rightarrow>
          if u_role u \<noteq> Reader then (st, Redirect (Some MsgError))
          else
            (case get_publisher st publisher_id of
               None \<Rightarrow> (st, Http404)
             | Some p \<Rightarrow>
                 (case filter (\<lambda>s. ps_reader s = uid \<and> ps_publisher s = p_id p \<and> ps_is_active s)
                         (publisher_subscriptions st) of
                    [] \<Rightarrow> (st, Redirect (Some MsgInfo))
                  | [subscription] \<Rightarrow>
                      (st\<lparr>publisher_subscriptions :=
                            map (\<lambda>s. if ps_reader s = uid \<and> ps_publisher s = p_id p
                                         \<and> ps_is_active s
                                      then s\<lparr>ps_is_active := False\<rparr> else s)
                              (publisher_subscriptions st)\<rparr>,
                       Redirect (Some MsgSuccess))
                  | _ \<Rightarrow> (st, Raised MultipleObjectsReturned))))"

subsection \<open>Role applications\<close>

text \<open>\<open>application.save()\<close>: the row of the object's key is updated; an object without a
  stored row is inserted (under a new key when it has none).\<close>

definition application_save :: "db \<Rightarrow> role_application \<Rightarrow> db \<times> role_application" where
  "application_save st obj =
     (let saved = (if ra_id obj = 0
                   then obj\<lparr>ra_id := next_id (map ra_id (role_applications st))\<rparr> else obj)
      in (st\<lparr>role_applications :=
               (if list_ex (\<lambda>r. ra_id r = ra_id saved) (role_applications st)
                then map (\<lambda>r. if ra_id r = ra_id saved then saved else r) (role_applications st)
                else role_applications st @ [saved])\<rparr>,
          saved))"

text \<open>\<open>Model.objects.get_or_create\<close> on the three profile tables. The lookup is by the
  given fields; with no row the insert is tried, which the unique columns (the one-to-one
  \<open>user\<close> of every profile, the \<open>name\<close> of a publisher) can refuse.\<close>

definition editor_get_or_create :: "db \<Rightarrow> nat \<Rightarrow> nat \<Rightarrow> exn + db" where
  "editor_get_or_create st uid pid =
     (case filter (\<lambda>e. e_user e = uid \<and> e_publisher e = pid) (editors st) of
        [] \<Rightarrow>
          if list_ex (\<lambda>e. e_user e = uid) (editors st) then Inl IntegrityError
          else Inr (st\<lparr>editors := editors st @
                        [\<lparr>e_id = next_id (map e_id (editors st)), e_user = uid,
                          e_publisher = pid\<rparr>]\<rparr>)
      | [e] \<Rightarrow> Inr st
      | _ \<Rightarrow> Inl MultipleObjectsReturned)"

definition journalist_get_or_create :: "db \<Rightarrow> nat \<Rightarrow> nat \<Rightarrow> exn + db" where
  "journalist_get_or_create st uid pid =
     (case filter (\<lambda>j. j_user j = uid \<and> j_publisher j = pid) (journalists st) of
        [] \<Rightarrow>
          if list_ex (\<lambda>j. j_user j = uid) (journalists st) then Inl IntegrityError
          else Inr (st\<lparr>journalists := journalists st @
                        [\<lparr>j_id = next_id (map j_id (journalists st)), j_user = uid,
                          j_publisher = pid\<rparr>]\<rparr>)
      | [j] \<Rightarrow> Inr st
      | _ \<Rightarrow> Inl MultipleObjectsReturned)"

definition publisher_get_or_create :: "db \<Rightarrow> nat \<Rightarrow> string \<Rightarrow> exn + db" where
  "publisher_get_or_create st uid name =
     (case filter (\<lambda>p. p_user p = uid \<and> p_name p = name) (publishers st) of
        [] \<Rightarrow>
          if list_ex (\<lambda>p. p_user p = uid \<or> p_name p = name) (publishers st)
          then Inl IntegrityError
          else Inr (st\<lparr>publishers := publishers st @
                        [\<lparr>p_id = next_id (map p_id (publishers st)), p_user = uid,
                          p_name = name\<rparr>]\<rparr>)
      | [p] \<Rightarrow> Inr st
      | _ \<Rightarrow> Inl MultipleObjectsReturned)"

text \<open>\<open>approve_role_application\<close>. The caller \<open>uid\<close> must be staff. \<open>publisher_id\<close> is the
  POST parameter \<open>publisher\<close> as a key, \<open>None\<close> when it is absent or empty.\<close>

definition approve_role_application ::
  "db \<Rightarrow> nat \<Rightarrow> nat \<Rightarrow> http_method \<Rightarrow> nat option \<Rightarrow> db \<times> view_result" where
  "approve_role_application st uid pk meth publisher_id =
     (case get_user st uid of
        None \<Rightarrow> (st, LoginRequired)
      | Some staff \<Rightarrow>
          if \<not> u_is_staff staff then (st, LoginRequired)
          else
            (case get_application st pk of
               None \<Rightarrow> (st, Http404)
             | Some application \<Rightarrow>
                 if meth = POST then
                   (case (case publisher_id of
                            None \<Rightarrow> Some None
                          | Some k \<Rightarrow> map_option Some (get_publisher st k)) of
                      None \<Rightarrow> (st, Http404)
                    | Some publisher \<Rightarrow>
                        (let (st1, application') =
                               application_save st (application\<lparr>ra_status := Approved\<rparr>)
                         in case get_user st1 (ra_user application') of
                              None \<Rightarrow> (st1, Raised DoesNotExist)
                            | Some user0 \<Rightarrow>
                                (let (st2, user) =
                                       user_save st1
                                         (user0\<lparr>u_role := ra_applied_role application'\<rparr>);
                                     st3 = deactivate_subscriptions st2 (u_id user);
                                     created =
                                       (if ra_applied_role application' = Editor
                                           \<and> publisher \<noteq> None
                                        then editor_get_or_create st3 (u_id user)
                                               (p_id (the publisher))
                                        else if ra_applied_role application' = Journalist
                                           \<and> publisher \<noteq> None
                                        then journalist_get_or_create st3 (u_id user)
                                               (p_id (the publisher))
                                        else if ra_applied_role application' = Publisher
                                        then publisher_get_or_create st3 (u_id user)
                                               (u_username user @ '' Publishing'')
                                        else Inr st3)
                                 in case created of
                                      Inl e \<Rightarrow> (st3, Raised e)
                                    | Inr st4 \<Rightarrow>
                                        (case send st4
                                                (RoleApprovedEmail (u_email user)
                                                   (ra_applied_role application')) of
                                           Inl e \<Rightarrow> (st4, Raised e)
                                         | Inr st5 \<Rightarrow>
                                             (st5, Redirect (Some MsgSuccess))))))
                 else (st, Redirect None)))"

definition reject_role_application :: "db \<Rightarrow> nat \<Rightarrow> nat \<Rightarrow> db \<times> view_result" where
  "reject_role_application st uid pk =
     (case get_user st uid of
        None \<Rightarrow> (st, LoginRequired)
      | Some staff \<Rightarrow>
          if \<not> u_is_staff staff then (st, LoginRequired)
          else
            (case get_application st pk of
               None \<Rightarrow> (st, Http404)
             | Some application \<Rightarrow>
                 (let (st1, application') =
                        application_save st (application\<lparr>ra_status := Rejected\<rparr>)
                  in case get_user st1 (ra_user application') of
                       None \<Rightarrow> (st1, Raised DoesNotExist)
                     | Some user \<Rightarrow>
                         (case send st1
                                 (RoleRejectedEmail (u_email user)
                                    (ra_applied_role application')) of
                            Inl e \<Rightarrow> (st1, Raised e)
                          | Inr st2 \<Rightarrow> (st2, Redirect (Some MsgInfo))))))"

subsection \<open>Password reset\<close>

text \<open>\<open>ResetPasswordForm\<close>: both fields are required and stripped and hold no null
  character, \<open>new_password\<close> passes \<open>validate_password\<close>, and \<open>clean\<close> refuses two
  different passwords.\<close>

definition reset_password_form_is_valid :: "library \<Rightarrow> string \<Rightarrow> string \<Rightarrow> bool" where
  "reset_password_form_is_valid lib new_password confirm_password =
     (strip new_password \<noteq> [] \<and> \<not> has_null new_password
      \<and> validate_password lib (strip new_password)
      \<and> strip confirm_password \<noteq> [] \<and> \<not> has_null confirm_password
      \<and> \<not> (strip new_password \<noteq> strip confirm_password))"

datatype reset_request = ResetGet | ResetPost string string

text \<open>\<open>reset_password\<close>: \<open>ResetToken.objects.get(token=hashed_token, used=False)\<close>, the
  expiry against \<open>timezone.now()\<close>, and on a valid POST the new password and the mark on
  the token row. The message of level success is left by a completed reset only.\<close>

definition reset_password ::
  "library \<Rightarrow> db \<Rightarrow> string \<Rightarrow> reset_request \<Rightarrow> int \<Rightarrow> db \<times> view_result" where
  "reset_password lib st token req now =
     (let hashed_token = sha1_hexdigest lib token
      in case filter (\<lambda>r. rt_token r = hashed_token \<and> rt_used r = False) (reset_tokens st) of
           [] \<Rightarrow> (st, Redirect (Some MsgError))
         | [reset_obj] \<Rightarrow>
             if rt_expiry_date reset_obj < now then (st, Redirect (Some MsgError))
             else
               (case req of
                  ResetGet \<Rightarrow> (st, Rendered)
                | ResetPost new_password confirm_password \<Rightarrow>
                    if reset_password_form_is_valid lib new_password confirm_password then
                      (case get_user st (rt_user reset_obj) of
                         None \<Rightarrow> (st, Raised DoesNotExist)
                       | Some user \<Rightarrow>
                           (let st1 = fst (user_save st
                                        (user\<lparr>u_password :=
                                           make_password lib (strip new_password)\<rparr>));
                                st2 = st1\<lparr>reset_tokens :=
                                        map (\<lambda>r. if rt_token r = hashed_token \<and> rt_used r = False
                                                  then r\<lparr>rt_used := True\<rparr> else r)
                                          (reset_tokens st1)\<rparr>
                            in (st2, Redirect (Some MsgSuccess))))
                    else (st, Rendered))
         | _ \<Rightarrow> (st, Raised MultipleObjectsReturned))"

section \<open>The admin of role applications (news/admin.py)\<close>

text \<open>\<open>RoleApplicationAdmin.save_model\<close>: \<open>obj\<close> is the application as the admin form
  edited it, \<open>publisher\<close> the form's \<open>cleaned_data.get("publisher")\<close>. The result holds the
  exception that left the function, if any.\<close>

definition save_model ::
  "db \<Rightarrow> role_application \<Rightarrow> publisher option \<Rightarrow> db \<times> exn option" where
  "save_model st obj0 publisher =
     (let (st1, obj) = application_save st obj0
      in case get_user st1 (ra_user obj) of
           None \<Rightarrow> (st1, Some DoesNotExist)
         | Some user0 \<Rightarrow>
             if ra_status obj = Approved then
               (let (st2, user) = user_save st1 (user0\<lparr>u_role := ra_applied_role obj\<rparr>);
                    st3 = deactivate_subscriptions st2 (u_id user);
                    created =
                      (if ra_applied_role obj = Editor \<and> publisher \<noteq> None
                       then editor_get_or_create st3 (u_id user) (p_id (the publisher))
                       else if ra_applied_role obj = Journalist \<and> publisher \<noteq> None
                       then journalist_get_or_create st3 (u_id user) (p_id (the publisher))
                       else if ra_applied_role obj = Publisher
                       then publisher_get_or_create st3 (u_id user)
                              (u_username user @ '' Publishing'')
                       else Inr st3)
                in case created of
                     Inl e \<Rightarrow> (st3, Some e)
                   | Inr st4 \<Rightarrow>
                       (case send st4
                               (RoleApprovedEmail (u_email user) (ra_applied_role obj)) of
                          Inl e \<Rightarrow> (st4, Some e)
                        | Inr st5 \<Rightarrow> (st5, None)))
             else if ra_status obj = Rejected then
               (case send st1 (RoleRejectedEmail (u_email user0) (ra_applied_role obj)) of
                  Inl e \<Rightarrow> (st1, Some e)
                | Inr st2 \<Rightarrow> (st2, None))
             else (st1, None))"

text \<open>The bulk actions of \<open>ArticleAdmin\<close>: \<open>queryset.update(status=...)\<close> on the rows the
  staff user selected.\<close>

definition approve_articles :: "db \<Rightarrow> nat list \<Rightarrow> db" where
  "approve_articles st selected =
     st\<lparr>articles :=
          map (\<lambda>r. if a_id r \<in> set selected then r\<lparr>a_status := Approved\<rparr> else r)
            (articles st)\<rparr>"

definition reject_articles :: "db \<Rightarrow> nat list \<Rightarrow> db" where
  "reject_articles st selected =
     st\<lparr>articles :=
          map (\<lambda>r. if a_id r \<in> set selected then r\<lparr>a_status := Rejected\<rparr> else r)
            (articles st)\<rparr>"

section \<open>The API (news/api/views.py, news/api/serializers.py)\<close>

text \<open>The answers of the API that are no result: 401, 400, 403, and the 500 of an
  exception that nothing catches.\<close>

datatype api_error = NotAuthenticated401 | BadRequest400 | Forbidden403 | Uncaught500 exn

definition subscribed_journalist_ids :: "db \<Rightarrow> nat \<Rightarrow> nat list" where
  "subscribed_journalist_ids st uid =
     map js_journalist
       (filter (\<lambda>s. js_reader s = uid \<and> js_is_active s) (journalist_subscriptions st))"

definition subscribed_publisher_ids :: "db \<Rightarrow> nat \<Rightarrow> nat list" where
  "subscribed_publisher_ids st uid =
     map ps_publisher
       (filter (\<lambda>s. ps_reader s = uid \<and> ps_is_active s) (publisher_subscriptions st))"

text \<open>\<open>ArticleViewSet.get_queryset\<close>, behind \<open>permissions.IsAuthenticated\<close>: the caller
  is the user with primary key \<open>uid\<close>; a caller who is no user is not authenticated.\<close>

definition get_queryset :: "db \<Rightarrow> nat \<Rightarrow> api_error + article list" where
  "get_queryset st uid =
     (case get_user st uid of
        None \<Rightarrow> Inl NotAuthenticated401
      | Some u \<Rightarrow>
          if u_role u = Reader then
            Inr (order_by_created_desc
                   (filter (\<lambda>a. a_journalist a \<in> set (subscribed_journalist_ids st uid)
                                \<or> a_publisher a \<in> set (subscribed_publisher_ids st uid))
                      (filter (\<lambda>a. a_status a = Approved) (articles st))))
          else
            Inr (order_by_created_desc (filter (\<lambda>a. a_status a = Approved) (articles st))))"

text \<open>\<open>by_journalist\<close> and \<open>by_publisher\<close>. The query parameter is the raw string of
  the request, \<open>None\<close> when the request has none; \<open>if not journalist_id\<close> refuses a
  missing and an empty one. The view hands the string to the lookups
  \<open>filter(journalist_id=...)\<close> as it is. The conversion of the string into a key is the
  framework's and the parameter \<open>key_of\<close>: the integer that the lookup compares with, or
  \<open>None\<close> where the conversion raises \<open>ValueError\<close>, which nothing catches.\<close>

definition by_journalist ::
  "(string \<Rightarrow> int option) \<Rightarrow> db \<Rightarrow> nat \<Rightarrow> string option \<Rightarrow> api_error + article list" where
  "by_journalist key_of st uid journalist_id =
     (case get_user st uid of
        None \<Rightarrow> Inl NotAuthenticated401
      | Some user \<Rightarrow>
          (case journalist_id of
             None \<Rightarrow> Inl BadRequest400
           | Some raw \<Rightarrow>
               if raw = [] then Inl BadRequest400
               else
                 (case key_of raw of
                    None \<Rightarrow> Inl (Uncaught500 ValueError)
                  | Some k \<Rightarrow>
                      if u_role user = Reader
                         \<and> \<not> list_ex (\<lambda>s. js_reader s = uid \<and> int (js_journalist s) = k
                                            \<and> js_is_active s)
                                (journalist_subscriptions st)
                      then Inl Forbidden403
                      else Inr (order_by_created_desc
                                  (filter (\<lambda>a. int (a_journalist a) = k
                                                 \<and> a_status a = Approved)
                                     (articles st))))))"

definition by_publisher ::
  "(string \<Rightarrow> int option) \<Rightarrow> db \<Rightarrow> nat \<Rightarrow> string option \<Rightarrow> api_error + article list" where
  "by_publisher key_of st uid publisher_id =
     (case get_user st uid of
        None \<Rightarrow> Inl NotAuthenticated401
      | Some user \<Rightarrow>
          (case publisher_id of
             None \<Rightarrow> Inl BadRequest400
           | Some raw \<Rightarrow>
               if raw = [] then Inl BadRequest400
               else
                 (case key_of raw of
                    None \<Rightarrow> Inl (Uncaught500 ValueError)
                  | Some k \<Rightarrow>
                      if u_role user = Reader
                         \<and> \<not> list_ex (\<lambda>s. ps_reader s = uid \<and> int (ps_publisher s) = k
                                            \<and> ps_is_active s)
                                (publisher_subscriptions st)
                      then Inl Forbidden403
                      else Inr (order_by_created_desc
                                  (filter (\<lambda>a. int (a_publisher a) = k
                                                 \<and> a_status a = Approved)
                                     (articles st))))))"

text \<open>\<open>ArticleCreateSerializer\<close>: the fields are \<open>title\<close> and \<open>content\<close>, both required; any
  other key of the request data (a \<open>status\<close>, say) is not read. The values of the request
  data are strings.

  \<open>char_field\<close> is the validation that the framework runs on such a field before the
  serializer's own \<open>validate_title\<close> or \<open>validate_content\<close>: the field is required, it is
  refused when blank after trimming, the value is trimmed, and the trimmed value is
  refused when it is longer than the column (255 for the title, no bound for the
  content) or holds a null character.\<close>

datatype validation_error =
    FieldRequired
  | FieldBlank
  | FieldTooLong
  | NullCharacter
  | TitleEmpty
  | TitleTooLong
  | ContentEmpty

record article_data =
  d_title :: "string option"
  d_content :: "string option"
  d_status :: "string option"

definition char_field :: "nat option \<Rightarrow> string option \<Rightarrow> validation_error + string" where
  "char_field max_length raw =
     (case raw of
        None \<Rightarrow> Inl FieldRequired
      | Some v \<Rightarrow>
          if v = [] \<or> strip v = [] then Inl FieldBlank
          else if (case max_length of None \<Rightarrow> False | Some n \<Rightarrow> n < length (strip v))
          then Inl FieldTooLong
          else if has_null (strip v) then Inl NullCharacter
          else Inr (strip v))"

definition validate_title :: "string \<Rightarrow> validation_error + string" where
  "validate_title v =
     (if v = [] \<or> strip v = [] then Inl TitleEmpty
      else if length (strip v) > 255 then Inl TitleTooLong
      else Inr (strip v))"

definition validate_content :: "string \<Rightarrow> validation_error + string" where
  "validate_content v =
     (if v = [] \<or> strip v = [] then Inl ContentEmpty else Inr (strip v))"

definition is_valid :: "article_data \<Rightarrow> validation_error list + string \<times> string" where
  "is_valid d =
     (let t = (case char_field (Some 255) (d_title d) of
                 Inl e \<Rightarrow> Inl e
               | Inr v \<Rightarrow> validate_title v);
          c = (case char_field None (d_content d) of
                 Inl e \<Rightarrow> Inl e
               | Inr v \<Rightarrow> validate_content v)
      in case (t, c) of
           (Inr tv, Inr cv) \<Rightarrow> Inr (tv, cv)
         | (Inl e, Inr _) \<Rightarrow> Inl [e]
         | (Inr _, Inl e) \<Rightarrow> Inl [e]
         | (Inl e1, Inl e2) \<Rightarrow> Inl [e1, e2])"

text \<open>\<open>ArticleViewSet.create\<close> behind \<open>IsJournalistOrPublisher\<close> (\<open>get_permissions\<close>); the
  answer is the error or the article created (201).\<close>

definition create :: "db \<Rightarrow> nat \<Rightarrow> article_data \<Rightarrow> int \<Rightarrow> db \<times> (api_error + article)" where
  "create st uid d now =
     (case get_user st uid of
        None \<Rightarrow> (st, Inl NotAuthenticated401)
      | Some user \<Rightarrow>
          if u_role user \<notin> {Journalist, Publisher, Editor} then (st, Inl Forbidden403)
          else
            (case journalist_profile st uid of
               None \<Rightarrow> (st, Inl Forbidden403)
             | Some journalist \<Rightarrow>
                 (case is_valid d of
                    Inl _ \<Rightarrow> (st, Inl BadRequest400)
                  | Inr (title, content) \<Rightarrow>
                      (let article =
                             \<lparr>a_id = next_id (map a_id (articles st)), a_title = title,
                              a_content = content, a_journalist = j_id journalist,
                              a_publisher = j_publisher journalist, a_status = Pending,
                              a_created_at = now\<rparr>
                       in (st\<lparr>articles := articles st @ [article]\<rparr>, Inr article)))))"

section \<open>The operations as a transition system\<close>

text \<open>One step is one request to a view that writes users, subscriptions, role
  applications, profiles, reset tokens or the status of articles, one call of the admin's
  \<open>save_model\<close> or of its bulk actions, or one \<open>save()\<close> of a user object (a direct
  assignment to its fields followed by \<open>save()\<close>), with any arguments. The views that
  edit or delete an article or a newsletter write none of these.\<close>

inductive step :: "db \<Rightarrow> db \<Rightarrow> bool" where
  step_user_save: "step st (fst (user_save st self))"
| step_register: "step st (fst (register st meth ok username email password))"
| step_apply_for_role: "step st (fst (apply_for_role st uid meth r motivation))"
| step_approve_article: "step st (fst (approve_article st uid pk))"
| step_reject_article: "step st (fst (reject_article st uid pk))"
| step_submit_article: "step st (fst (submit_article st uid meth title content now))"
| step_create: "step st (fst (create st uid d now))"
| step_subscribe_to_journalist: "step st (fst (subscribe_to_journalist st uid k))"
| step_unsubscribe_from_journalist: "step st (fst (unsubscribe_from_journalist st uid k))"
| step_subscribe_to_publisher: "step st (fst (subscribe_to_publisher st uid k))"
| step_unsubscribe_from_publisher: "step st (fst (unsubscribe_from_publisher st uid k))"
| step_approve_role_application:
    "step st (fst (approve_role_application st uid pk meth publisher_id))"
| step_reject_role_application: "step st (fst (reject_role_application st uid pk))"
| step_save_model: "step st (fst (save_model st obj publisher))"
| step_approve_articles: "step st (approve_articles st selected)"
| step_reject_articles: "step st (reject_articles st selected)"
| step_generate_reset_url:
    "generate_reset_url lib st user token now = Inr (st', url) \<Longrightarrow> step st st'"
| step_reset_password: "step st (fst (reset_password lib st token req now))"

text \<open>The foreign key of a subscription row: its reader is a user.\<close>

definition readers_exist :: "db \<Rightarrow> bool" where
  "readers_exist st \<longleftrightarrow>
     (\<forall>s \<in> set (journalist_subscriptions st). \<exists>u \<in> set (users st). u_id u = js_reader s)
     \<and> (\<forall>s \<in> set (publisher_subscriptions st). \<exists>u \<in> set (users st). u_id u = ps_reader s)"

text \<open>Only readers hold active subscriptions: no user whose role is not reader is the
  reader of an active row.\<close>

definition only_readers_active :: "db \<Rightarrow> bool" where
  "only_readers_active st \<longleftrightarrow>
     (\<forall>u \<in> set (users st). u_role u \<noteq> Reader \<longrightarrow>
        (\<forall>s \<in> set (journalist_subscriptions st). js_reader s = u_id u \<longrightarrow> \<not> js_is_active s)
        \<and> (\<forall>s \<in> set (publisher_subscriptions st). ps_reader s = u_id u \<longrightarrow> \<not> ps_is_active s))"

text \<open>Every subscription row of a user is inactive.\<close>

definition all_inactive :: "db \<Rightarrow> nat \<Rightarrow> bool" where
  "all_inactive st uid \<longleftrightarrow>
     (\<forall>s \<in> set (journalist_subscriptions st). js_reader s = uid \<longrightarrow> \<not> js_is_active s)
     \<and> (\<forall>s \<in> set (publisher_subscriptions st). ps_reader s = uid \<longrightarrow> \<not> ps_is_active s)"

text \<open>The constraints \<open>unique_together\<close> of the two subscription tables, and the unique
  token column of \<open>ResetToken\<close>.\<close>

definition js_unique_together :: "db \<Rightarrow> bool" where
  "js_unique_together st \<longleftrightarrow>
     distinct (map (\<lambda>s. (js_reader s, js_journalist s)) (journalist_subscriptions st))"

definition ps_unique_together :: "db \<Rightarrow> bool" where
  "ps_unique_together st \<longleftrightarrow>
     distinct (map (\<lambda>s. (ps_reader s, ps_publisher s)) (publisher_subscriptions st))"

definition token_unique :: "db \<Rightarrow> bool" where
  "token_unique st \<longleftrightarrow> distinct (map rt_token (reset_tokens st))"

text \<open>The foreign keys of an article row: its journalist and its publisher are rows.\<close>

definition article_keys_exist :: "db \<Rightarrow> bool" where
  "article_keys_exist st \<longleftrightarrow>
     (\<forall>a \<in> set (articles st).
        get_journalist st (a_journalist a) \<noteq> None \<and> get_publisher st (a_publisher a) \<noteq> None)"

section \<open>An example database\<close>

text \<open>The scenario of the specification: the reader alice subscribes to the journalist
  bob and to bob's publisher Acme, whose editor is carol; erin has applied for the role
  of editor; frank writes for a second publisher.\<close>

definition alice :: user where
  "alice = \<lparr>u_id = 1, u_username = ''alice'', u_email = ''alice@example.com'',
            u_password = ''a'', u_role = Reader, u_is_staff = False, u_groups = [Reader]\<rparr>"

definition bob :: user where
  "bob = \<lparr>u_id = 2, u_username = ''bob'', u_email = ''bob@example.com'',
          u_password = ''b'', u_role = Journalist, u_is_staff = False,
          u_groups = [Journalist]\<rparr>"

definition carol :: user where
  "carol = \<lparr>u_id = 3, u_username = ''carol'', u_email = ''carol@example.com'',
            u_password = ''c'', u_role = Editor, u_is_staff = False, u_groups = [Editor]\<rparr>"

definition dave :: user where
  "dave = \<lparr>u_id = 4, u_username = ''dave'', u_email = ''dave@example.com'',
           u_password = ''d'', u_role = Publisher, u_is_staff = False,
           u_groups = [Publisher]\<rparr>"

definition staff_user :: user where
  "staff_user = \<lparr>u_id = 5, u_username = ''admin'', u_email = ''admin@example.com'',
                 u_password = ''s'', u_role = Reader, u_is_staff = True,
                 u_groups = [Reader]\<rparr>"

definition erin :: user where
  "erin = \<lparr>u_id = 6, u_username = ''erin'', u_email = ''erin@example.com'',
           u_password = ''e'', u_role = Reader, u_is_staff = False, u_groups = [Reader]\<rparr>"

definition frank :: user where
  "frank = \<lparr>u_id = 7, u_username = ''frank'', u_email = ''frank@example.com'',
            u_password = ''f'', u_role = Journalist, u_is_staff = False,
            u_groups = [Journalist]\<rparr>"

definition gina :: user where
  "gina = \<lparr>u_id = 8, u_username = ''gina'', u_email = ''gina@example.com'',
           u_password = ''g'', u_role = Publisher, u_is_staff = False,
           u_groups = [Publisher]\<rparr>"

definition article1 :: article where
  "article1 = \<lparr>a_id = 1, a_title = ''first'', a_content = ''text of the first'',
               a_journalist = 1, a_publisher = 1, a_status = Approved, a_created_at = 10\<rparr>"

definition article2 :: article where
  "article2 = \<lparr>a_id = 2, a_title = ''pending article'', a_content = ''text of the second'',
               a_journalist = 1, a_publisher = 1, a_status = Pending, a_created_at = 20\<rparr>"

definition article3 :: article where
  "article3 = \<lparr>a_id = 3, a_title = ''third'', a_content = ''text of the third'',
               a_journalist = 2, a_publisher = 2, a_status = Approved, a_created_at = 30\<rparr>"

definition newsletter1 :: newsletter where
  "newsletter1 = \<lparr>n_id = 1, n_title = ''weekly'', n_content = ''text of the letter'',
                  n_journalist = 1, n_publisher = 1, n_created_at = 15\<rparr>"

definition example_db :: db where
  "example_db =
     \<lparr>users = [alice, bob, carol, dave, staff_user, erin, frank, gina],
      role_applications =
        [\<lparr>ra_id = 1, ra_user = 6, ra_applied_role = Editor, ra_motivation = ''I edit'',
          ra_status = Pending\<rparr>],
      publishers = [\<lparr>p_id = 1, p_user = 4, p_name = ''Acme''\<rparr>,
                    \<lparr>p_id = 2, p_user = 8, p_name = ''Globe''\<rparr>],
      editors = [\<lparr>e_id = 1, e_user = 3, e_publisher = 1\<rparr>],
      journalists = [\<lparr>j_id = 1, j_user = 2, j_publisher = 1\<rparr>,
                     \<lparr>j_id = 2, j_user = 7, j_publisher = 2\<rparr>],
      articles = [article1, article2, article3],
      newsletters = [newsletter1],
      journalist_subscriptions =
        [\<lparr>js_reader = 1, js_journalist = 1, js_is_active = True\<rparr>],
      publisher_subscriptions =
        [\<lparr>ps_reader = 1, ps_publisher = 1, ps_is_active = True\<rparr>],
      reset_tokens = [],
      outbox = []\<rparr>"

text \<open>Request data: one with a blank title, and one with a title and a content in
  blanks and a status of its own.\<close>

definition blank_title_data :: article_data where
  "blank_title_data = \<lparr>d_title = Some ''  '', d_content = Some ''body'', d_status = None\<rparr>"

definition hello_data :: article_data where
  "hello_data = \<lparr>d_title = Some '' Hello '', d_content = Some ''body '',
                  d_status = Some ''approved''\<rparr>"

text \<open>For the examples, a conversion that reads the strings of one to nine decimal digits
  as \<open>int()\<close> does and converts no other string; \<open>int()\<close> raises \<open>ValueError\<close> on a string
  that holds a letter.\<close>

definition example_key_of :: "string \<Rightarrow> int option" where
  "example_key_of s =
     (if s \<noteq> [] \<and> length s \<le> 9 \<and> list_all (\<lambda>c. c \<in> set ''0123456789'') s
      then Some (int (foldl (\<lambda>n c. 10 * n + (of_char c - 48)) 0 s))
      else None)"

section \<open>Properties\<close>

subsection \<open>Ordering\<close>

lemma order_by_created_desc_mset: "mset (order_by_created_desc xs) = mset xs"
  by (simp add: order_by_created_desc_def)

lemma order_by_created_desc_set: "set (order_by_created_desc xs) = set xs"
  by (simp add: order_by_created_desc_def)

lemma order_by_created_desc_sorted:
  "sorted_wrt (\<lambda>a b. a_created_at b \<le> a_created_at a) (order_by_created_desc xs)"
proof -
  have "sorted (map (\<lambda>a. - a_created_at a) (order_by_created_desc xs))"
    by (simp add: order_by_created_desc_def)
  then show ?thesis
    by (simp add: sorted_map)
qed

lemma order_by_created_desc_distinct:
  assumes "distinct (map a_id xs)"
  shows "distinct (map a_id (order_by_created_desc xs))"
proof -
  have "mset (map a_id (order_by_created_desc xs)) = mset (map a_id xs)"
    by (simp add: order_by_created_desc_mset)
  then show ?thesis
    using assms by (metis mset_eq_imp_distinct_iff)
qed

subsection \<open>Visible articles\<close>

lemma subscribed_journalist_ids_set:
  "set (subscribed_journalist_ids st uid) =
     {js_journalist s | s. s \<in> set (journalist_subscriptions st)
                           \<and> js_reader s = uid \<and> js_is_active s}"
  by (auto simp: subscribed_journalist_ids_def)

lemma subscribed_publisher_ids_set:
  "set (subscribed_publisher_ids st uid) =
     {ps_publisher s | s. s \<in> set (publisher_subscriptions st)
                          \<and> ps_reader s = uid \<and> ps_is_active s}"
  by (auto simp: subscribed_publisher_ids_def)

text \<open>
  Claim C1. For a caller who is a user, \<open>get_queryset\<close> answers a list \<open>xs\<close> of articles,
  newest first. For a role other than reader, \<open>xs\<close> holds the approved articles, each as
  often as the table holds it. For a reader, \<open>xs\<close> holds the approved articles whose
  journalist is the target of an active journalist subscription of the reader or whose
  publisher is the target of an active publisher subscription of the reader, each as
  often as the table holds it: with distinct primary keys no article is listed twice,
  also when it matches through both subscriptions.
\<close>

theorem visible_articles:
  assumes "get_user st uid = Some u"
  shows "\<exists>xs. get_queryset st uid = Inr xs
     \<and> sorted_wrt (\<lambda>a b. a_created_at b \<le> a_created_at a) xs
     \<and> (u_role u \<noteq> Reader \<longrightarrow>
          mset xs = filter_mset (\<lambda>a. a_status a = Approved) (mset (articles st)))
     \<and> (u_role u = Reader \<longrightarrow>
          mset xs =
            filter_mset
              (\<lambda>a. a_status a = Approved
                 \<and> (a_journalist a \<in>
                      {js_journalist s | s. s \<in> set (journalist_subscriptions st)
                                            \<and> js_reader s = uid \<and> js_is_active s}
                    \<or> a_publisher a \<in>
                      {ps_publisher s | s. s \<in> set (publisher_subscriptions st)
                                           \<and> ps_reader s = uid \<and> ps_is_active s}))
              (mset (articles st)))
     \<and> (distinct (map a_id (articles st)) \<longrightarrow> distinct (map a_id xs))"
proof (cases "u_role u = Reader")
  case True
  let ?P = "\<lambda>a. a_journalist a \<in> set (subscribed_journalist_ids st uid)
                \<or> a_publisher a \<in> set (subscribed_publisher_ids st uid)"
  let ?ys = "filter ?P (filter (\<lambda>a. a_status a = Approved) (articles st))"
  have q: "get_queryset st uid = Inr (order_by_created_desc ?ys)"
    using assms True by (simp add: get_queryset_def)
  have m: "mset (order_by_created_desc ?ys) =
      filter_mset
        (\<lambda>a. a_status a = Approved
           \<and> (a_journalist a \<in>
                {js_journalist s | s. s \<in> set (journalist_subscriptions st)
                                      \<and> js_reader s = uid \<and> js_is_active s}
              \<or> a_publisher a \<in>
                {ps_publisher s | s. s \<in> set (publisher_subscriptions st)
                                     \<and> ps_reader s = uid \<and> ps_is_active s}))
        (mset (articles st))"
    unfolding order_by_created_desc_mset subscribed_journalist_ids_set
      subscribed_publisher_ids_set
    by (simp add: conj_commute)
  have d: "distinct (map a_id (articles st))
      \<longrightarrow> distinct (map a_id (order_by_created_desc ?ys))"
    by (auto intro!: order_by_created_desc_distinct simp: distinct_map_filter)
  show ?thesis
    using q m d True order_by_created_desc_sorted[of ?ys] by blast
next
  case False
  let ?ys = "filter (\<lambda>a. a_status a = Approved) (articles st)"
  have q: "get_queryset st uid = Inr (order_by_created_desc ?ys)"
    using assms False by (simp add: get_queryset_def)
  have m: "mset (order_by_created_desc ?ys) =
      filter_mset (\<lambda>a. a_status a = Approved) (mset (articles st))"
    by (simp add: order_by_created_desc_mset)
  have d: "distinct (map a_id (articles st))
      \<longrightarrow> distinct (map a_id (order_by_created_desc ?ys))"
    by (auto intro!: order_by_created_desc_distinct simp: distinct_map_filter)
  show ?thesis
    using q m d False order_by_created_desc_sorted[of ?ys] by blast
qed

lemmas example_defs =
  example_db_def alice_def bob_def carol_def dave_def staff_user_def erin_def frank_def gina_def
  article1_def article2_def article3_def newsletter1_def

theorem visible_articles_witness:
  "get_user example_db 1 = Some alice \<and> u_role alice = Reader
   \<and> distinct (map a_id (articles example_db))
   \<and> (\<exists>xs. get_queryset example_db 1 = Inr xs \<and> distinct (map a_id xs)
          \<and> mset xs = {#article1#})"
  using visible_articles[of example_db 1 alice]
  by (simp add: get_user_def example_defs)


subsection \<open>Page lists\<close>

lemma newsletters_by_created_desc_mset: "mset (newsletters_by_created_desc xs) = mset xs"
  by (simp add: newsletters_by_created_desc_def)

lemma newsletters_by_created_desc_sorted:
  "sorted_wrt (\<lambda>a b. n_created_at b \<le> n_created_at a) (newsletters_by_created_desc xs)"
proof -
  have "sorted (map (\<lambda>a. - n_created_at a) (newsletters_by_created_desc xs))"
    by (simp add: newsletters_by_created_desc_def)
  then show ?thesis
    by (simp add: sorted_map)
qed

text \<open>
  Claim C10. The page views \<open>article_list\<close> and \<open>newsletter_list\<close> answer every user
  alike: all approved articles and all newsletters, newest first, whatever the
  subscriptions. For a reader without an active subscription the API's \<open>get_queryset\<close>
  is empty all the same, so the subscription filter is on the API path only.
\<close>

theorem page_lists_unfiltered:
  assumes "get_user st uid = Some u"
  shows "(\<exists>xs. article_list st uid = Inr xs
            \<and> mset xs = filter_mset (\<lambda>a. a_status a = Approved) (mset (articles st))
            \<and> sorted_wrt (\<lambda>a b. a_created_at b \<le> a_created_at a) xs)
       \<and> (\<exists>ys. newsletter_list st uid = Inr ys
            \<and> mset ys = mset (newsletters st)
            \<and> sorted_wrt (\<lambda>a b. n_created_at b \<le> n_created_at a) ys)
       \<and> (u_role u = Reader
            \<and> (\<forall>s \<in> set (journalist_subscriptions st). js_reader s = uid \<longrightarrow> \<not> js_is_active s)
            \<and> (\<forall>s \<in> set (publisher_subscriptions st). ps_reader s = uid \<longrightarrow> \<not> ps_is_active s)
          \<longrightarrow> get_queryset st uid = Inr [])"
proof -
  have a: "article_list st uid
      = Inr (order_by_created_desc (filter (\<lambda>a. a_status a = Approved) (articles st)))"
    using assms by (simp add: article_list_def)
  have n: "newsletter_list st uid = Inr (newsletters_by_created_desc (newsletters st))"
    using assms by (simp add: newsletter_list_def)
  have q: "get_queryset st uid = Inr []"
    if "u_role u = Reader"
      and "\<forall>s \<in> set (journalist_subscriptions st). js_reader s = uid \<longrightarrow> \<not> js_is_active s"
      and "\<forall>s \<in> set (publisher_subscriptions st). ps_reader s = uid \<longrightarrow> \<not> ps_is_active s"
  proof -
    have "subscribed_journalist_ids st uid = []"
      using that(2) by (auto simp: subscribed_journalist_ids_def filter_empty_conv)
    moreover have "subscribed_publisher_ids st uid = []"
      using that(3) by (auto simp: subscribed_publisher_ids_def filter_empty_conv)
    ultimately show ?thesis
      using assms that(1) by (simp add: get_queryset_def order_by_created_desc_def)
  qed
  show ?thesis
    using a n q
    by (simp add: order_by_created_desc_mset order_by_created_desc_sorted
        newsletters_by_created_desc_mset newsletters_by_created_desc_sorted)
qed

theorem page_lists_unfiltered_witness:
  "get_user example_db 6 = Some erin \<and> u_role erin = Reader
   \<and> get_queryset example_db 6 = Inr []
   \<and> (\<exists>xs. article_list example_db 6 = Inr xs \<and> mset xs = {#article1, article3#})
   \<and> (\<exists>ys. newsletter_list example_db 6 = Inr ys \<and> mset ys = {#newsletter1#})"
proof -
  have h: "get_user example_db 6 = Some erin"
    by (simp add: get_user_def example_defs)
  have r: "u_role erin = Reader"
    by (simp add: erin_def)
  have a: "filter_mset (\<lambda>a. a_status a = Approved) (mset (articles example_db))
      = {#article1, article3#}"
    by (simp add: example_defs)
  have n: "mset (newsletters example_db) = {#newsletter1#}"
    by (simp add: example_db_def)
  have j: "\<forall>s \<in> set (journalist_subscriptions example_db). js_reader s = 6 \<longrightarrow> \<not> js_is_active s"
    by (simp add: example_db_def)
  have p: "\<forall>s \<in> set (publisher_subscriptions example_db). ps_reader s = 6 \<longrightarrow> \<not> ps_is_active s"
    by (simp add: example_db_def)
  show ?thesis
    using page_lists_unfiltered[OF h] h r a n j p by auto
qed
subsection \<open>Articles of one journalist or one publisher\<close>

lemma by_journalist_ok:
  assumes "get_user st uid = Some u" and "raw \<noteq> []" and "key_of raw = Some k"
    and "u_role u \<noteq> Reader
         \<or> (\<exists>s \<in> set (journalist_subscriptions st).
               js_reader s = uid \<and> int (js_journalist s) = k \<and> js_is_active s)"
  shows "by_journalist key_of st uid (Some raw)
     = Inr (order_by_created_desc
              (filter (\<lambda>a. int (a_journalist a) = k \<and> a_status a = Approved) (articles st)))"
  using assms by (auto simp: by_journalist_def list_ex_iff)

lemma by_publisher_ok:
  assumes "get_user st uid = Some u" and "raw \<noteq> []" and "key_of raw = Some k"
    and "u_role u \<noteq> Reader
         \<or> (\<exists>s \<in> set (publisher_subscriptions st).
               ps_reader s = uid \<and> int (ps_publisher s) = k \<and> ps_is_active s)"
  shows "by_publisher key_of st uid (Some raw)
     = Inr (order_by_created_desc
              (filter (\<lambda>a. int (a_publisher a) = k \<and> a_status a = Approved) (articles st)))"
  using assms by (auto simp: by_publisher_def list_ex_iff)

lemma no_articles_of_missing_journalist:
  assumes "article_keys_exist st" and "\<forall>j \<in> set (journalists st). int (j_id j) \<noteq> k"
  shows "filter (\<lambda>a. int (a_journalist a) = k \<and> a_status a = Approved) (articles st) = []"
proof -
  have "int (a_journalist a) \<noteq> k" if "a \<in> set (articles st)" for a
  proof -
    from assms(1) that obtain j where "get_journalist st (a_journalist a) = Some j"
      by (auto simp: article_keys_exist_def)
    then have "j \<in> set (journalists st)" "j_id j = a_journalist a"
      by (auto simp: get_journalist_def find_Some_iff)
    with assms(2) show ?thesis by auto
  qed
  then show ?thesis
    by (auto simp: filter_empty_conv)
qed

lemma no_articles_of_missing_publisher:
  assumes "article_keys_exist st" and "\<forall>p \<in> set (publishers st). int (p_id p) \<noteq> k"
  shows "filter (\<lambda>a. int (a_publisher a) = k \<and> a_status a = Approved) (articles st) = []"
proof -
  have "int (a_publisher a) \<noteq> k" if "a \<in> set (articles st)" for a
  proof -
    from assms(1) that obtain p where "get_publisher st (a_publisher a) = Some p"
      by (auto simp: article_keys_exist_def)
    then have "p \<in> set (publishers st)" "p_id p = a_publisher a"
      by (auto simp: get_publisher_def find_Some_iff)
    with assms(2) show ?thesis by auto
  qed
  then show ?thesis
    by (auto simp: filter_empty_conv)
qed

text \<open>
  What \<open>by_journalist\<close> and \<open>by_publisher\<close> answer to a caller who is a user: 400 when
  the id parameter is missing or empty; the uncaught \<open>ValueError\<close> when the parameter
  does not convert into a key, whatever the role; for a parameter that converts, 403
  when the caller is a reader without an active subscription to that very target, and
  otherwise the approved articles of the target, newest first, which is the empty list
  when the articles table (whose foreign keys hold) has no row of that key.
\<close>

theorem single_target_queries:
  assumes "get_user st uid = Some u"
  shows "by_journalist key_of st uid None = Inl BadRequest400
     \<and> by_journalist key_of st uid (Some []) = Inl BadRequest400
     \<and> by_publisher key_of st uid None = Inl BadRequest400
     \<and> by_publisher key_of st uid (Some []) = Inl BadRequest400
     \<and> (raw \<noteq> [] \<and> key_of raw = None \<longrightarrow>
          by_journalist key_of st uid (Some raw) = Inl (Uncaught500 ValueError)
          \<and> by_publisher key_of st uid (Some raw) = Inl (Uncaught500 ValueError))
     \<and> (raw \<noteq> [] \<and> key_of raw = Some k \<and> u_role u = Reader
          \<and> \<not> (\<exists>s \<in> set (journalist_subscriptions st).
                  js_reader s = uid \<and> int (js_journalist s) = k \<and> js_is_active s)
        \<longrightarrow> by_journalist key_of st uid (Some raw) = Inl Forbidden403)
     \<and> (raw \<noteq> [] \<and> key_of raw = Some k \<and> u_role u = Reader
          \<and> \<not> (\<exists>s \<in> set (publisher_subscriptions st).
                  ps_reader s = uid \<and> int (ps_publisher s) = k \<and> ps_is_active s)
        \<longrightarrow> by_publisher key_of st uid (Some raw) = Inl Forbidden403)
     \<and> (raw \<noteq> [] \<and> key_of raw = Some k
          \<and> (u_role u \<noteq> Reader
              \<or> (\<exists>s \<in> set (journalist_subscriptions st).
                    js_reader s = uid \<and> int (js_journalist s) = k \<and> js_is_active s))
        \<longrightarrow> (\<exists>xs. by_journalist key_of st uid (Some raw) = Inr xs
               \<and> mset xs = filter_mset (\<lambda>a. int (a_journalist a) = k \<and> a_status a = Approved)
                              (mset (articles st))
               \<and> sorted_wrt (\<lambda>a b. a_created_at b \<le> a_created_at a) xs
               \<and> (article_keys_exist st \<and> (\<forall>j \<in> set (journalists st). int (j_id j) \<noteq> k)
                    \<longrightarrow> xs = [])))
     \<and> (raw \<noteq> [] \<and> key_of raw = Some k
          \<and> (u_role u \<noteq> Reader
              \<or> (\<exists>s \<in> set (publisher_subscriptions st).
                    ps_reader s = uid \<and> int (ps_publisher s) = k \<and> ps_is_active s))
        \<longrightarrow> (\<exists>xs. by_publisher key_of st uid (Some raw) = Inr xs
               \<and> mset xs = filter_mset (\<lambda>a. int (a_publisher a) = k \<and> a_status a = Approved)
                              (mset (articles st))
               \<and> sorted_wrt (\<lambda>a b. a_created_at b \<le> a_created_at a) xs
               \<and> (article_keys_exist st \<and> (\<forall>p \<in> set (publishers st). int (p_id p) \<noteq> k)
                    \<longrightarrow> xs = [])))"
proof -
  have c1: "by_journalist key_of st uid None = Inl BadRequest400"
    "by_journalist key_of st uid (Some []) = Inl BadRequest400"
    using assms by (simp_all add: by_journalist_def)
  have c2: "by_publisher key_of st uid None = Inl BadRequest400"
    "by_publisher key_of st uid (Some []) = Inl BadRequest400"
    using assms by (simp_all add: by_publisher_def)
  have c0: "by_journalist key_of st uid (Some raw) = Inl (Uncaught500 ValueError)
          \<and> by_publisher key_of st uid (Some raw) = Inl (Uncaught500 ValueError)"
    if "raw \<noteq> []" "key_of raw = None"
    using assms that by (simp add: by_journalist_def by_publisher_def)
  have c3: "by_journalist key_of st uid (Some raw) = Inl Forbidden403"
    if "raw \<noteq> []" "key_of raw = Some k" "u_role u = Reader"
      and "\<not> (\<exists>s \<in> set (journalist_subscriptions st).
                  js_reader s = uid \<and> int (js_journalist s) = k \<and> js_is_active s)"
    using assms that by (auto simp: by_journalist_def list_ex_iff)
  have c4: "by_publisher key_of st uid (Some raw) = Inl Forbidden403"
    if "raw \<noteq> []" "key_of raw = Some k" "u_role u = Reader"
      and "\<not> (\<exists>s \<in> set (publisher_subscriptions st).
                  ps_reader s = uid \<and> int (ps_publisher s) = k \<and> ps_is_active s)"
    using assms that by (auto simp: by_publisher_def list_ex_iff)
  have c5: "\<exists>xs. by_journalist key_of st uid (Some raw) = Inr xs
               \<and> mset xs = filter_mset (\<lambda>a. int (a_journalist a) = k \<and> a_status a = Approved)
                              (mset (articles st))
               \<and> sorted_wrt (\<lambda>a b. a_created_at b \<le> a_created_at a) xs
               \<and> (article_keys_exist st \<and> (\<forall>j \<in> set (journalists st). int (j_id j) \<noteq> k)
                    \<longrightarrow> xs = [])"
    if "raw \<noteq> []" "key_of raw = Some k"
      "u_role u \<noteq> Reader
          \<or> (\<exists>s \<in> set (journalist_subscriptions st).
                js_reader s = uid \<and> int (js_journalist s) = k \<and> js_is_active s)"
    unfolding by_journalist_ok[where key_of = key_of and raw = raw, OF assms that]
    using no_articles_of_missing_journalist[of st k]
    by (simp add: order_by_created_desc_mset order_by_created_desc_sorted)
      (simp add: order_by_created_desc_def)
  have c6: "\<exists>xs. by_publisher key_of st uid (Some raw) = Inr xs
               \<and> mset xs = filter_mset (\<lambda>a. int (a_publisher a) = k \<and> a_status a = Approved)
                              (mset (articles st))
               \<and> sorted_wrt (\<lambda>a b. a_created_at b \<le> a_created_at a) xs
               \<and> (article_keys_exist st \<and> (\<forall>p \<in> set (publishers st). int (p_id p) \<noteq> k)
                    \<longrightarrow> xs = [])"
    if "raw \<noteq> []" "key_of raw = Some k"
      "u_role u \<noteq> Reader
          \<or> (\<exists>s \<in> set (publisher_subscriptions st).
                ps_reader s = uid \<and> int (ps_publisher s) = k \<and> ps_is_active s)"
    unfolding by_publisher_ok[where key_of = key_of and raw = raw, OF assms that]
    using no_articles_of_missing_publisher[of st k]
    by (simp add: order_by_created_desc_mset order_by_created_desc_sorted)
      (simp add: order_by_created_desc_def)
  show ?thesis
    using c0 c1 c2 c3 c4 c5 c6 by blast
qed

theorem single_target_queries_witness:
  "get_user example_db 1 = Some alice \<and> get_user example_db 2 = Some bob
   \<and> u_role alice = Reader \<and> u_role bob \<noteq> Reader
   \<and> example_key_of ''1'' = Some 1 \<and> example_key_of ''2'' = Some 2
   \<and> example_key_of ''9'' = Some 9 \<and> example_key_of ''abc'' = None
   \<and> by_journalist example_key_of example_db 1 None = Inl BadRequest400
   \<and> by_journalist example_key_of example_db 1 (Some ''2'') = Inl Forbidden403
   \<and> by_publisher example_key_of example_db 1 (Some ''2'') = Inl Forbidden403
   \<and> (\<exists>xs. by_journalist example_key_of example_db 1 (Some ''1'') = Inr xs
          \<and> mset xs = {#article1#})
   \<and> (\<exists>xs. by_publisher example_key_of example_db 1 (Some ''1'') = Inr xs
          \<and> mset xs = {#article1#})
   \<and> article_keys_exist example_db
   \<and> by_journalist example_key_of example_db 2 (Some ''9'') = Inr []
   \<and> by_journalist example_key_of example_db 2 (Some ''abc'') = Inl (Uncaught500 ValueError)"
proof -
  have a: "get_user example_db 1 = Some alice" "u_role alice = Reader"
    by (simp_all add: get_user_def example_defs)
  have b: "get_user example_db 2 = Some bob" "u_role bob \<noteq> Reader"
    by (simp_all add: get_user_def example_defs)
  have k: "example_key_of ''1'' = Some 1" "example_key_of ''2'' = Some 2"
    "example_key_of ''9'' = Some 9" "example_key_of ''abc'' = None"
    by (simp_all add: example_key_of_def)
  have s1: "\<not> (\<exists>s \<in> set (journalist_subscriptions example_db).
                  js_reader s = 1 \<and> int (js_journalist s) = 2 \<and> js_is_active s)"
    and s2: "\<not> (\<exists>s \<in> set (publisher_subscriptions example_db).
                  ps_reader s = 1 \<and> int (ps_publisher s) = 2 \<and> ps_is_active s)"
    and s3: "\<exists>s \<in> set (journalist_subscriptions example_db).
                  js_reader s = 1 \<and> int (js_journalist s) = 1 \<and> js_is_active s"
    and s4: "\<exists>s \<in> set (publisher_subscriptions example_db).
                  ps_reader s = 1 \<and> int (ps_publisher s) = 1 \<and> ps_is_active s"
    by (simp_all add: example_db_def)
  have f1: "filter_mset (\<lambda>a. int (a_journalist a) = 1 \<and> a_status a = Approved)
              (mset (articles example_db)) = {#article1#}"
    and f2: "filter_mset (\<lambda>a. int (a_publisher a) = 1 \<and> a_status a = Approved)
              (mset (articles example_db)) = {#article1#}"
    by (simp_all add: example_defs)
  have e: "article_keys_exist example_db"
    "\<forall>j \<in> set (journalists example_db). int (j_id j) \<noteq> 9"
    by (simp_all add: article_keys_exist_def get_journalist_def get_publisher_def example_defs)
  have n: "''1'' \<noteq> []" "''2'' \<noteq> []" "''9'' \<noteq> []" "''abc'' \<noteq> []"
    by simp_all
  show ?thesis
    using single_target_queries[OF a(1), of example_key_of "''2''" 2]
      single_target_queries[OF a(1), of example_key_of "''1''" 1]
      single_target_queries[OF b(1), of example_key_of "''9''" 9]
      single_target_queries[OF b(1), of example_key_of "''abc''" 0]
      a b k s1 s2 s3 s4 f1 f2 e n
    by auto
qed

text \<open>
  Claim C6 says that every request with an id parameter is answered with 403 or with
  the approved articles of the target. The views check that the parameter is there and
  pass it to the lookups unread: a parameter that is no number (\<open>?journalist_id=abc\<close>)
  leaves \<open>by_journalist\<close> and \<open>by_publisher\<close> as an uncaught \<open>ValueError\<close>, for the
  journalist bob as for the reader alice.
\<close>

theorem id_that_is_no_number:
  "example_key_of ''abc'' = None
   \<and> map_option u_role (get_user example_db 2) = Some Journalist
   \<and> by_journalist example_key_of example_db 2 (Some ''abc'') = Inl (Uncaught500 ValueError)
   \<and> by_publisher example_key_of example_db 2 (Some ''abc'') = Inl (Uncaught500 ValueError)
   \<and> map_option u_role (get_user example_db 1) = Some Reader
   \<and> by_journalist example_key_of example_db 1 (Some ''abc'') = Inl (Uncaught500 ValueError)
   \<and> by_publisher example_key_of example_db 1 (Some ''abc'') = Inl (Uncaught500 ValueError)"
  by (simp add: by_journalist_def by_publisher_def example_key_of_def get_user_def
      example_defs)

subsection \<open>Creating an article through the API\<close>

lemma strip_Nil: "strip [] = []"
  by (simp add: strip_def)

lemma char_field_cases:
  "char_field n raw = Inr v \<longleftrightarrow>
     (\<exists>v0. raw = Some v0 \<and> v = strip v0 \<and> strip v0 \<noteq> []
        \<and> (case n of None \<Rightarrow> True | Some k \<Rightarrow> length (strip v0) \<le> k)
        \<and> \<not> has_null (strip v0))"
  by (auto simp: char_field_def strip_Nil split: option.splits)

lemma dropWhile_rev_prefix:
  assumes "xs = [] \<or> \<not> P (hd xs)"
  shows "dropWhile P (rev (dropWhile P (rev xs))) = rev (dropWhile P (rev xs))"
proof (cases "rev (dropWhile P (rev xs))")
  case Nil
  show ?thesis unfolding Nil by simp
next
  case (Cons z zs)
  have "rev (dropWhile P (rev xs)) @ rev (takeWhile P (rev xs))
      = rev (takeWhile P (rev xs) @ dropWhile P (rev xs))"
    by (simp only: rev_append)
  also have "\<dots> = rev (rev xs)"
    by (simp only: takeWhile_dropWhile_id)
  also have "\<dots> = xs"
    by simp
  finally have "xs = (z # zs) @ rev (takeWhile P (rev xs))"
    unfolding Cons by (rule sym)
  then have "hd xs = z" "xs \<noteq> []"
    by (cases xs; simp)+
  then have "\<not> P z"
    using assms by simp
  then show ?thesis
    unfolding Cons by simp
qed

lemma strip_strip: "strip (strip s) = strip s"
proof -
  have h: "dropWhile isspace s = [] \<or> \<not> isspace (hd (dropWhile isspace s))"
    using hd_dropWhile[of isspace s] by blast
  show ?thesis
    unfolding strip_def
      dropWhile_rev_prefix[where P = isspace and xs = "dropWhile isspace s", OF h]
      rev_rev_ident dropWhile_idem ..
qed

lemma is_valid_cases:
  "is_valid d = Inr (t, c) \<longleftrightarrow>
     (\<exists>t0 c0. d_title d = Some t0 \<and> d_content d = Some c0
        \<and> t = strip t0 \<and> c = strip c0
        \<and> strip t0 \<noteq> [] \<and> length (strip t0) \<le> 255 \<and> \<not> has_null (strip t0)
        \<and> strip c0 \<noteq> [] \<and> \<not> has_null (strip c0))"
proof
  assume v: "is_valid d = Inr (t, c)"
  then obtain tv cv where
    t: "char_field (Some 255) (d_title d) = Inr tv" "validate_title tv = Inr t"
    and c: "char_field None (d_content d) = Inr cv" "validate_content cv = Inr c"
    by (auto simp: is_valid_def Let_def split: sum.splits)
  from t(1) c(1) obtain t0 c0 where
    r: "d_title d = Some t0" "tv = strip t0" "strip t0 \<noteq> []" "length (strip t0) \<le> 255"
       "\<not> has_null (strip t0)"
       "d_content d = Some c0" "cv = strip c0" "strip c0 \<noteq> []" "\<not> has_null (strip c0)"
    unfolding char_field_cases by auto
  have "t = strip t0" "c = strip c0"
    using t(2) c(2) r(2,7)
    by (auto simp: validate_title_def validate_content_def strip_strip split: if_splits)
  with r show "\<exists>t0 c0. d_title d = Some t0 \<and> d_content d = Some c0
        \<and> t = strip t0 \<and> c = strip c0
        \<and> strip t0 \<noteq> [] \<and> length (strip t0) \<le> 255 \<and> \<not> has_null (strip t0)
        \<and> strip c0 \<noteq> [] \<and> \<not> has_null (strip c0)"
    by blast
next
  assume "\<exists>t0 c0. d_title d = Some t0 \<and> d_content d = Some c0
        \<and> t = strip t0 \<and> c = strip c0
        \<and> strip t0 \<noteq> [] \<and> length (strip t0) \<le> 255 \<and> \<not> has_null (strip t0)
        \<and> strip c0 \<noteq> [] \<and> \<not> has_null (strip c0)"
  then obtain t0 c0 where
    r: "d_title d = Some t0" "d_content d = Some c0" "t = strip t0" "c = strip c0"
       "strip t0 \<noteq> []" "length (strip t0) \<le> 255" "\<not> has_null (strip t0)"
       "strip c0 \<noteq> []" "\<not> has_null (strip c0)"
    by blast
  have "char_field (Some 255) (d_title d) = Inr (strip t0)"
    "char_field None (d_content d) = Inr (strip c0)"
    using r by (auto simp: char_field_def strip_Nil)
  moreover have "validate_title (strip t0) = Inr (strip t0)"
    "validate_content (strip c0) = Inr (strip c0)"
    using r by (auto simp: validate_title_def validate_content_def strip_strip)
  ultimately show "is_valid d = Inr (t, c)"
    using r(3,4) by (simp add: is_valid_def)
qed

lemma is_valid_refuses:
  assumes "(case d_title d of None \<Rightarrow> True
            | Some t \<Rightarrow> strip t = [] \<or> 255 < length (strip t))
         \<or> (case d_content d of None \<Rightarrow> True | Some c \<Rightarrow> strip c = [])"
  shows "\<exists>es. is_valid d = Inl es"
proof (cases "is_valid d")
  case (Inl es)
  then show ?thesis by blast
next
  case (Inr tc)
  then obtain t c where "is_valid d = Inr (t, c)"
    by (cases tc) auto
  then show ?thesis
    using assms unfolding is_valid_cases by (auto split: option.splits)
qed

lemma is_valid_ignores_status: "is_valid (d\<lparr>d_status := x\<rparr>) = is_valid d"
  by (simp add: is_valid_def)

text \<open>
  Claim C7. For a caller who is a user, \<open>create\<close> (POST /articles/)
  \<^item> answers 403 and leaves the database as it is when the caller has no journalist
    profile;
  \<^item> for a caller who passes the permission class (a role other than reader) and has
    a journalist profile, a request whose title and content are not blank after
    trimming, with a trimmed title of at most 255 characters and no null character
    in either, creates one article and answers it: its journalist and publisher are
    those of the caller's profile, its status is pending, its title and content are
    the trimmed ones;
  \<^item> whenever it answers an article, that article is the one row added, with these
    fields;
  \<^item> does not read the \<open>status\<close> of the request data;
  \<^item> creates nothing and answers an error when the title or the content is missing or
    blank after trimming or the trimmed title is longer than 255 characters: the error
    is 400 for a caller who passes the permission checks.
\<close>

theorem create_article:
  assumes "get_user st uid = Some u"
  shows "(journalist_profile st uid = None \<longrightarrow> create st uid d now = (st, Inl Forbidden403))
     \<and> (\<forall>j t0 c0. u_role u \<noteq> Reader \<and> journalist_profile st uid = Some j
            \<and> d_title d = Some t0 \<and> d_content d = Some c0
            \<and> strip t0 \<noteq> [] \<and> length (strip t0) \<le> 255 \<and> \<not> has_null (strip t0)
            \<and> strip c0 \<noteq> [] \<and> \<not> has_null (strip c0) \<longrightarrow>
          create st uid d now
            = (st\<lparr>articles := articles st @
                   [\<lparr>a_id = next_id (map a_id (articles st)), a_title = strip t0,
                     a_content = strip c0, a_journalist = j_id j,
                     a_publisher = j_publisher j, a_status = Pending,
                     a_created_at = now\<rparr>]\<rparr>,
               Inr \<lparr>a_id = next_id (map a_id (articles st)), a_title = strip t0,
                    a_content = strip c0, a_journalist = j_id j,
                    a_publisher = j_publisher j, a_status = Pending,
                    a_created_at = now\<rparr>))
     \<and> (\<forall>st' a. create st uid d now = (st', Inr a) \<longrightarrow>
          (\<exists>j t0 c0. journalist_profile st uid = Some j
             \<and> a_journalist a = j_id j \<and> a_publisher a = j_publisher j
             \<and> a_status a = Pending
             \<and> d_title d = Some t0 \<and> a_title a = strip t0
             \<and> d_content d = Some c0 \<and> a_content a = strip c0
             \<and> st' = st\<lparr>articles := articles st @ [a]\<rparr>))
     \<and> create st uid (d\<lparr>d_status := x\<rparr>) now = create st uid d now
     \<and> ((case d_title d of None \<Rightarrow> True
            | Some t \<Rightarrow> strip t = [] \<or> 255 < length (strip t))
         \<or> (case d_content d of None \<Rightarrow> True | Some c \<Rightarrow> strip c = [])
        \<longrightarrow> (\<exists>e. create st uid d now = (st, Inl e)
              \<and> (u_role u \<noteq> Reader \<and> journalist_profile st uid \<noteq> None
                   \<longrightarrow> e = BadRequest400)))"
proof -
  have c1: "create st uid d now = (st, Inl Forbidden403)" if "journalist_profile st uid = None"
    using assms that by (simp add: create_def)
  have c0: "create st uid d now
            = (st\<lparr>articles := articles st @
                   [\<lparr>a_id = next_id (map a_id (articles st)), a_title = strip t0,
                     a_content = strip c0, a_journalist = j_id j,
                     a_publisher = j_publisher j, a_status = Pending,
                     a_created_at = now\<rparr>]\<rparr>,
               Inr \<lparr>a_id = next_id (map a_id (articles st)), a_title = strip t0,
                    a_content = strip c0, a_journalist = j_id j,
                    a_publisher = j_publisher j, a_status = Pending,
                    a_created_at = now\<rparr>)"
    if "u_role u \<noteq> Reader \<and> journalist_profile st uid = Some j
            \<and> d_title d = Some t0 \<and> d_content d = Some c0
            \<and> strip t0 \<noteq> [] \<and> length (strip t0) \<le> 255 \<and> \<not> has_null (strip t0)
            \<and> strip c0 \<noteq> [] \<and> \<not> has_null (strip c0)" for j t0 c0
  proof -
    have v: "is_valid d = Inr (strip t0, strip c0)"
      unfolding is_valid_cases using that by blast
    show ?thesis
      using assms that v by (cases "u_role u") (simp_all add: create_def Let_def)
  qed
  have c2: "\<exists>j t0 c0. journalist_profile st uid = Some j
             \<and> a_journalist a = j_id j \<and> a_publisher a = j_publisher j
             \<and> a_status a = Pending
             \<and> d_title d = Some t0 \<and> a_title a = strip t0
             \<and> d_content d = Some c0 \<and> a_content a = strip c0
             \<and> st' = st\<lparr>articles := articles st @ [a]\<rparr>"
    if "create st uid d now = (st', Inr a)" for st' a
  proof -
    from that assms obtain j t c where j: "journalist_profile st uid = Some j"
      and v: "is_valid d = Inr (t, c)"
      and a: "a = \<lparr>a_id = next_id (map a_id (articles st)), a_title = t,
                              a_content = c, a_journalist = j_id j,
                              a_publisher = j_publisher j, a_status = Pending,
                              a_created_at = now\<rparr>"
      and st': "st' = st\<lparr>articles := articles st @ [a]\<rparr>"
      by (auto simp: create_def Let_def split: if_splits option.splits sum.splits)
    from v[unfolded is_valid_cases] j a st' show ?thesis
      by auto
  qed
  have c3: "create st uid (d\<lparr>d_status := x\<rparr>) now = create st uid d now"
    unfolding create_def is_valid_ignores_status ..
  have c4: "\<exists>e. create st uid d now = (st, Inl e)
              \<and> (u_role u \<noteq> Reader \<and> journalist_profile st uid \<noteq> None
                   \<longrightarrow> e = BadRequest400)"
    if "(case d_title d of None \<Rightarrow> True
            | Some t \<Rightarrow> strip t = [] \<or> 255 < length (strip t))
         \<or> (case d_content d of None \<Rightarrow> True | Some c \<Rightarrow> strip c = [])"
  proof -
    from is_valid_refuses[OF that] obtain es where "is_valid d = Inl es" ..
    then show ?thesis
      using assms by (cases "u_role u") (auto simp: create_def split: option.splits)
  qed
  show ?thesis
    apply (intro conjI allI impI)
        apply (erule c1)
       apply (erule c0)
      apply (erule c2)
     apply (rule c3)
    apply (erule c4)
    done
qed

theorem create_article_witness:
  "get_user example_db 2 = Some bob \<and> u_role bob \<noteq> Reader
   \<and> journalist_profile example_db 2 = Some \<lparr>j_id = 1, j_user = 2, j_publisher = 1\<rparr>
   \<and> create example_db 2 blank_title_data 40 = (example_db, Inl BadRequest400)
   \<and> d_status hello_data = Some ''approved''
   \<and> create example_db 2 hello_data 40
       = (example_db\<lparr>articles := articles example_db @
            [\<lparr>a_id = 4, a_title = ''Hello'', a_content = ''body'', a_journalist = 1,
              a_publisher = 1, a_status = Pending, a_created_at = 40\<rparr>]\<rparr>,
          Inr \<lparr>a_id = 4, a_title = ''Hello'', a_content = ''body'', a_journalist = 1,
               a_publisher = 1, a_status = Pending, a_created_at = 40\<rparr>)
   \<and> get_user example_db 1 = Some alice
   \<and> create example_db 1 hello_data 40 = (example_db, Inl Forbidden403)"
proof -
  have b: "get_user example_db 2 = Some bob" "u_role bob \<noteq> Reader"
    "journalist_profile example_db 2 = Some \<lparr>j_id = 1, j_user = 2, j_publisher = 1\<rparr>"
    by (simp_all add: get_user_def journalist_profile_def example_defs)
  have a: "get_user example_db 1 = Some alice" "journalist_profile example_db 1 = None"
    by (simp_all add: get_user_def journalist_profile_def example_defs)
  have t: "d_title blank_title_data = Some ''  ''" "strip ''  '' = []"
    by (simp_all add: blank_title_data_def strip_def isspace_def)
  have h: "d_title hello_data = Some '' Hello ''" "d_content hello_data = Some ''body ''"
    "d_status hello_data = Some ''approved''"
    "strip '' Hello '' = ''Hello''" "strip ''body '' = ''body''"
    "\<not> has_null ''Hello''" "\<not> has_null ''body''"
    by (simp_all add: hello_data_def strip_def isspace_def has_null_def)
  have n: "next_id (map a_id (articles example_db)) = 4"
    by (simp add: next_id_def example_defs)
  have k1: "create example_db 2 blank_title_data 40 = (example_db, Inl BadRequest400)"
    using create_article[OF b(1), of blank_title_data 40, THEN conjunct2, THEN conjunct2,
        THEN conjunct2, THEN conjunct2] b t
    by auto
  have k2: "create example_db 2 hello_data 40
       = (example_db\<lparr>articles := articles example_db @
            [\<lparr>a_id = 4, a_title = ''Hello'', a_content = ''body'', a_journalist = 1,
              a_publisher = 1, a_status = Pending, a_created_at = 40\<rparr>]\<rparr>,
          Inr \<lparr>a_id = 4, a_title = ''Hello'', a_content = ''body'', a_journalist = 1,
               a_publisher = 1, a_status = Pending, a_created_at = 40\<rparr>)"
    using create_article[OF b(1), of hello_data 40, THEN conjunct2, THEN conjunct1,
        rule_format, of "\<lparr>j_id = 1, j_user = 2, j_publisher = 1\<rparr>" "'' Hello ''" "''body ''"]
      b h n
    by simp
  have k3: "create example_db 1 hello_data 40 = (example_db, Inl Forbidden403)"
    using create_article[OF a(1), of hello_data 40, THEN conjunct1] a(2)
    by simp
  show ?thesis
    using k1 k2 k3 a(1) b h(3) by simp
qed

subsection \<open>Review of articles\<close>

lemma send_article_approval_notification_articles:
  "articles (send_article_approval_notification st a) = articles st"
  by (simp add: send_article_approval_notification_def split: option.splits)

lemma send_article_subscriber_notifications_articles:
  "articles (send_article_subscriber_notifications st a) = articles st"
  by (simp add: send_article_subscriber_notifications_def Let_def split: option.splits)

text \<open>What the two review views do to the articles table, by the guard: the caller is an
  editor whose profile's publisher is the article's.\<close>

lemma approve_article_articles:
  "articles (fst (approve_article st uid pk)) =
     (case (get_user st uid, get_article st pk, editor_profile st uid) of
        (Some u, Some a, Some e) \<Rightarrow>
          if u_role u = Editor \<and> a_publisher a = e_publisher e
          then map (\<lambda>r. if a_id r = a_id a then a\<lparr>a_status := Approved\<rparr> else r) (articles st)
          else articles st
      | _ \<Rightarrow> articles st)"
  by (simp add: approve_article_def Let_def article_save_def
      send_article_approval_notification_articles
      send_article_subscriber_notifications_articles split: option.splits)

lemma reject_article_articles:
  "articles (fst (reject_article st uid pk)) =
     (case (get_user st uid, get_article st pk, editor_profile st uid) of
        (Some u, Some a, Some e) \<Rightarrow>
          if u_role u = Editor \<and> a_publisher a = e_publisher e
          then map (\<lambda>r. if a_id r = a_id a then a\<lparr>a_status := Rejected\<rparr> else r) (articles st)
          else articles st
      | _ \<Rightarrow> articles st)"
  by (simp add: reject_article_def Let_def article_save_def
      send_article_approval_notification_articles split: option.splits)

lemma get_article_id: "get_article st pk = Some a \<Longrightarrow> a_id a = pk"
  by (auto simp: get_article_def dest: find_Some_iff[THEN iffD1])

lemma find_map_update:
  assumes "find (\<lambda>r. a_id r = k) xs = Some a" and "a_id b = k"
  shows "find (\<lambda>r. a_id r = k) (map (\<lambda>r. if a_id r = k then b else r) xs) = Some b"
  using assms by (induction xs) (auto split: if_splits)

text \<open>
  Claim C4, as the code has it. An article is pending when it is created (by the page
  view \<open>submit_article\<close> or by the API's \<open>create\<close>). \<open>approve_article\<close> and
  \<open>reject_article\<close> change the articles table only for a caller with the role editor whose
  editor profile has the publisher of the article; for such a caller they set the
  status of the article to approved, respectively rejected, whatever its status was
  before, and leave every other key's row as it was. The bulk actions of the admin set
  the status of the selected articles without that guard.
\<close>

theorem article_review:
  shows "(\<forall>st' r. submit_article st uid meth title content now = (st', r)
             \<and> articles st' \<noteq> articles st \<longrightarrow>
           (\<exists>a. articles st' = articles st @ [a] \<and> a_status a = Pending))
     \<and> (\<forall>st' a. create st uid d now = (st', Inr a) \<longrightarrow>
           articles st' = articles st @ [a] \<and> a_status a = Pending)
     \<and> (articles (fst (approve_article st uid pk)) \<noteq> articles st
          \<or> articles (fst (reject_article st uid pk)) \<noteq> articles st \<longrightarrow>
           (\<exists>u e a. get_user st uid = Some u \<and> u_role u = Editor
              \<and> editor_profile st uid = Some e \<and> get_article st pk = Some a
              \<and> e_publisher e = a_publisher a))
     \<and> (\<forall>u e a. get_user st uid = Some u \<and> u_role u = Editor
              \<and> editor_profile st uid = Some e \<and> get_article st pk = Some a
              \<and> e_publisher e = a_publisher a \<longrightarrow>
           get_article (fst (approve_article st uid pk)) pk = Some (a\<lparr>a_status := Approved\<rparr>)
           \<and> get_article (fst (reject_article st uid pk)) pk = Some (a\<lparr>a_status := Rejected\<rparr>)
           \<and> (\<forall>r \<in> set (articles st). a_id r \<noteq> pk \<longrightarrow>
                 r \<in> set (articles (fst (approve_article st uid pk)))
                 \<and> r \<in> set (articles (fst (reject_article st uid pk)))))
     \<and> (\<forall>r \<in> set (articles (approve_articles st selected)).
           a_id r \<in> set selected \<longrightarrow> a_status r = Approved)
     \<and> (\<forall>r \<in> set (articles (reject_articles st selected)).
           a_id r \<in> set selected \<longrightarrow> a_status r = Rejected)"
proof -
  have c1: "\<exists>a. articles st' = articles st @ [a] \<and> a_status a = Pending"
    if "submit_article st uid meth title content now = (st', r)"
      and "articles st' \<noteq> articles st" for st' r
    using that
    by (auto simp: submit_article_def split: option.splits if_splits)
  have c2: "articles st' = articles st @ [a] \<and> a_status a = Pending"
    if "create st uid d now = (st', Inr a)" for st' a
    using that
    by (auto simp: create_def Let_def split: option.splits if_splits sum.splits)
  have c3: "\<exists>u e a. get_user st uid = Some u \<and> u_role u = Editor
              \<and> editor_profile st uid = Some e \<and> get_article st pk = Some a
              \<and> e_publisher e = a_publisher a"
    if "articles (fst (approve_article st uid pk)) \<noteq> articles st
          \<or> articles (fst (reject_article st uid pk)) \<noteq> articles st"
    using that unfolding approve_article_articles reject_article_articles
    by (auto split: option.splits if_splits)
  have c4: "get_article (fst (approve_article st uid pk)) pk = Some (a\<lparr>a_status := Approved\<rparr>)
           \<and> get_article (fst (reject_article st uid pk)) pk = Some (a\<lparr>a_status := Rejected\<rparr>)
           \<and> (\<forall>r \<in> set (articles st). a_id r \<noteq> pk \<longrightarrow>
                 r \<in> set (articles (fst (approve_article st uid pk)))
                 \<and> r \<in> set (articles (fst (reject_article st uid pk))))"
    if "get_user st uid = Some u \<and> u_role u = Editor
              \<and> editor_profile st uid = Some e \<and> get_article st pk = Some a
              \<and> e_publisher e = a_publisher a" for u e a
  proof -
    have k: "a_id a = pk"
      using that get_article_id by blast
    have f: "find (\<lambda>r. a_id r = pk) (articles st) = Some a"
      using that by (simp add: get_article_def)
    have ap: "articles (fst (approve_article st uid pk))
        = map (\<lambda>r. if a_id r = pk then a\<lparr>a_status := Approved\<rparr> else r) (articles st)"
      unfolding approve_article_articles using that k by simp
    have rj: "articles (fst (reject_article st uid pk))
        = map (\<lambda>r. if a_id r = pk then a\<lparr>a_status := Rejected\<rparr> else r) (articles st)"
      unfolding reject_article_articles using that k by simp
    show ?thesis
      unfolding get_article_def ap rj
      using find_map_update[OF f, of "a\<lparr>a_status := Approved\<rparr>"]
        find_map_update[OF f, of "a\<lparr>a_status := Rejected\<rparr>"] k
      by (auto simp: image_iff)
  qed
  have c5: "\<forall>r \<in> set (articles (approve_articles st selected)).
           a_id r \<in> set selected \<longrightarrow> a_status r = Approved"
    by (auto simp: approve_articles_def)
  have c6: "\<forall>r \<in> set (articles (reject_articles st selected)).
           a_id r \<in> set selected \<longrightarrow> a_status r = Rejected"
    by (auto simp: reject_articles_def)
  show ?thesis
    using c1 c2 c3 c4 c5 c6 by blast
qed

theorem article_review_witness:
  "get_user example_db 3 = Some carol \<and> u_role carol = Editor
   \<and> editor_profile example_db 3 = Some \<lparr>e_id = 1, e_user = 3, e_publisher = 1\<rparr>
   \<and> get_article example_db 2 = Some article2 \<and> a_status article2 = Pending
   \<and> get_article (fst (approve_article example_db 3 2)) 2
       = Some (article2\<lparr>a_status := Approved\<rparr>)
   \<and> get_article (fst (reject_article example_db 3 2)) 2
       = Some (article2\<lparr>a_status := Rejected\<rparr>)"
proof -
  have h: "get_user example_db 3 = Some carol" "u_role carol = Editor"
    "editor_profile example_db 3 = Some \<lparr>e_id = 1, e_user = 3, e_publisher = 1\<rparr>"
    "get_article example_db 2 = Some article2" "a_status article2 = Pending"
    "a_publisher article2 = 1"
    by (simp_all add: get_user_def editor_profile_def get_article_def example_defs)
  show ?thesis
    using article_review[of example_db 3 GET "[]" "[]" 0 blank_title_data 2 "[]"] h
    by auto
qed

text \<open>Approved is not terminal: the editor carol of Acme rejects the approved
  article 1 of Acme, and it is rejected.\<close>

theorem approved_is_not_terminal:
  "get_user example_db 3 = Some carol \<and> u_role carol = Editor
   \<and> map_option a_status (get_article example_db 1) = Some Approved
   \<and> map_option a_status (get_article (fst (reject_article example_db 3 1)) 1)
       = Some Rejected"
  by (simp add: reject_article_def get_user_def get_article_def editor_profile_def
      article_save_def send_article_approval_notification_def get_journalist_def
      Let_def example_defs)

subsection \<open>Subscribing and unsubscribing\<close>

lemma filter_unique_key:
  assumes "distinct (map f xs)"
  shows "filter (\<lambda>s. f s = k) xs = [] \<or> (\<exists>s. filter (\<lambda>s. f s = k) xs = [s])"
  using assms
proof (induction xs)
  case Nil
  then show ?case by simp
next
  case (Cons x xs)
  show ?case
  proof (cases "f x = k")
    case True
    with Cons.prems have "\<forall>y \<in> set xs. f y \<noteq> k"
      by (auto simp: image_iff)
    then have "filter (\<lambda>s. f s = k) xs = []"
      by (simp add: filter_empty_conv)
    with True show ?thesis by simp
  next
    case False
    with Cons show ?thesis by simp
  qed
qed

lemma filter_map_update:
  assumes "\<And>r. P (g r) = P r"
  shows "filter P (map (\<lambda>r. if Q r \<and> P r then g r else r) xs)
     = map (\<lambda>r. if Q r then g r else r) (filter P xs)"
  using assms by (induction xs) auto

lemma get_journalist_id: "get_journalist st k = Some j \<Longrightarrow> j_id j = k"
  by (auto simp: get_journalist_def dest: find_Some_iff[THEN iffD1])

lemma get_publisher_id: "get_publisher st k = Some p \<Longrightarrow> p_id p = k"
  by (auto simp: get_publisher_def dest: find_Some_iff[THEN iffD1])

lemma js_rows_cases:
  assumes "js_unique_together st"
  shows "filter (\<lambda>s. js_reader s = uid \<and> js_journalist s = jid) (journalist_subscriptions st) = []
     \<or> (\<exists>b. filter (\<lambda>s. js_reader s = uid \<and> js_journalist s = jid)
                (journalist_subscriptions st)
              = [\<lparr>js_reader = uid, js_journalist = jid, js_is_active = b\<rparr>])"
proof -
  let ?xs = "filter (\<lambda>s. js_reader s = uid \<and> js_journalist s = jid) (journalist_subscriptions st)"
  from filter_unique_key[OF assms[unfolded js_unique_together_def], of "(uid, jid)"]
  have "?xs = [] \<or> (\<exists>s. ?xs = [s])"
    by simp
  moreover have "s = \<lparr>js_reader = uid, js_journalist = jid, js_is_active = js_is_active s\<rparr>"
    if "?xs = [s]" for s
  proof -
    have "s \<in> set ?xs" using that by simp
    then show ?thesis by auto
  qed
  ultimately show ?thesis
    by metis
qed

text \<open>The rows of the pair after \<open>subscribe_to_journalist\<close>, and the table.\<close>

lemma subscribe_to_journalist_table:
  assumes u: "get_user st uid = Some u" "u_role u = Reader"
    and j: "get_journalist st jid = Some j"
    and q: "js_unique_together st"
  shows "journalist_subscriptions (fst (subscribe_to_journalist st uid jid)) =
     (if filter (\<lambda>s. js_reader s = uid \<and> js_journalist s = jid) (journalist_subscriptions st) = []
      then journalist_subscriptions st
             @ [\<lparr>js_reader = uid, js_journalist = jid, js_is_active = True\<rparr>]
      else map (\<lambda>s. if js_reader s = uid \<and> js_journalist s = jid
                     then s\<lparr>js_is_active := True\<rparr> else s) (journalist_subscriptions st))"
proof -
  have k: "j_id j = jid" using j by (rule get_journalist_id)
  let ?xs = "filter (\<lambda>s. js_reader s = uid \<and> js_journalist s = jid) (journalist_subscriptions st)"
  consider "?xs = []" | b where "?xs = [\<lparr>js_reader = uid, js_journalist = jid, js_is_active = b\<rparr>]"
    using js_rows_cases[OF q, of uid jid] by blast
  then show ?thesis
  proof cases
    case 1
    then show ?thesis
      using u j k by (simp add: subscribe_to_journalist_def)
  next
    case 2
    have same: "map (\<lambda>s. if js_reader s = uid \<and> js_journalist s = jid
                     then s\<lparr>js_is_active := True\<rparr> else s) (journalist_subscriptions st)
        = journalist_subscriptions st" if "b"
    proof -
      have "\<forall>s \<in> set (journalist_subscriptions st).
          js_reader s = uid \<and> js_journalist s = jid \<longrightarrow> s\<lparr>js_is_active := True\<rparr> = s"
      proof (intro ballI impI)
        fix s assume "s \<in> set (journalist_subscriptions st)"
          and "js_reader s = uid \<and> js_journalist s = jid"
        then have "s \<in> set ?xs" by simp
        with 2 that show "s\<lparr>js_is_active := True\<rparr> = s" by simp
      qed
      then show ?thesis
        by (simp add: map_idI)
    qed
    show ?thesis
      using u j k 2 same by (cases b) (simp_all add: subscribe_to_journalist_def)
  qed
qed

lemma subscribe_to_journalist_rows:
  assumes u: "get_user st uid = Some u" "u_role u = Reader"
    and j: "get_journalist st jid = Some j"
    and q: "js_unique_together st"
  shows "filter (\<lambda>s. js_reader s = uid \<and> js_journalist s = jid)
           (journalist_subscriptions (fst (subscribe_to_journalist st uid jid)))
         = [\<lparr>js_reader = uid, js_journalist = jid, js_is_active = True\<rparr>]"
    and "js_unique_together (fst (subscribe_to_journalist st uid jid))"
proof -
  let ?P = "\<lambda>s. js_reader s = uid \<and> js_journalist s = jid"
  let ?xs = "filter ?P (journalist_subscriptions st)"
  let ?up = "map (\<lambda>s. if js_reader s = uid \<and> js_journalist s = jid
                     then s\<lparr>js_is_active := True\<rparr> else s) (journalist_subscriptions st)"
  have f: "filter ?P ?up = map (\<lambda>s. s\<lparr>js_is_active := True\<rparr>) ?xs"
    using filter_map_update[of ?P "\<lambda>s. s\<lparr>js_is_active := True\<rparr>" "\<lambda>s. True"
        "journalist_subscriptions st"]
    by simp
  have m: "map (\<lambda>s. (js_reader s, js_journalist s)) ?up
      = map (\<lambda>s. (js_reader s, js_journalist s)) (journalist_subscriptions st)"
    by (simp add: comp_def if_distrib cong: if_cong)
  have d: "distinct (map (\<lambda>s. (js_reader s, js_journalist s)) ?up)"
    unfolding m using q by (simp only: js_unique_together_def)
  consider "?xs = []" | b where "?xs = [\<lparr>js_reader = uid, js_journalist = jid, js_is_active = b\<rparr>]"
    using js_rows_cases[OF q, of uid jid] by blast
  then have "filter ?P (journalist_subscriptions (fst (subscribe_to_journalist st uid jid)))
         = [\<lparr>js_reader = uid, js_journalist = jid, js_is_active = True\<rparr>]
      \<and> js_unique_together (fst (subscribe_to_journalist st uid jid))"
  proof cases
    case 1
    then have "(uid, jid) \<notin> set (map (\<lambda>s. (js_reader s, js_journalist s))
                                   (journalist_subscriptions st))"
      by (auto simp: filter_empty_conv)
    then show ?thesis
      unfolding js_unique_together_def subscribe_to_journalist_table[OF u j q]
      using 1 q[unfolded js_unique_together_def] by simp
  next
    case 2
    then have t: "journalist_subscriptions (fst (subscribe_to_journalist st uid jid)) = ?up"
      unfolding subscribe_to_journalist_table[OF u j q] by simp
    show ?thesis
      unfolding js_unique_together_def t using f d 2 by simp
  qed
  then show "filter ?P (journalist_subscriptions (fst (subscribe_to_journalist st uid jid)))
         = [\<lparr>js_reader = uid, js_journalist = jid, js_is_active = True\<rparr>]"
    and "js_unique_together (fst (subscribe_to_journalist st uid jid))"
    by simp_all
qed

lemma subscribe_to_journalist_state:
  "fst (subscribe_to_journalist st uid jid)
     = st\<lparr>journalist_subscriptions :=
            journalist_subscriptions (fst (subscribe_to_journalist st uid jid))\<rparr>"
  by (simp add: subscribe_to_journalist_def split: option.splits list.splits)

lemma subscribe_to_journalist_twice:
  assumes u: "get_user st uid = Some u" "u_role u = Reader"
    and j: "get_journalist st jid = Some j"
    and q: "js_unique_together st"
  shows "subscribe_to_journalist (fst (subscribe_to_journalist st uid jid)) uid jid
     = (fst (subscribe_to_journalist st uid jid), Redirect (Some MsgInfo))"
proof -
  let ?st1 = "fst (subscribe_to_journalist st uid jid)"
  have u1: "get_user ?st1 uid = Some u"
    using u(1) by (subst subscribe_to_journalist_state) (simp add: get_user_def)
  have j1: "get_journalist ?st1 jid = Some j"
    using j by (subst subscribe_to_journalist_state) (simp add: get_journalist_def)
  have k: "j_id j = jid" using j by (rule get_journalist_id)
  show ?thesis
    using u1 u(2) j1 k subscribe_to_journalist_rows(1)[OF u j q]
    by (simp add: subscribe_to_journalist_def[of ?st1])
qed

lemma unsubscribe_from_journalist_not_subscribed:
  assumes u: "get_user st uid = Some u" "u_role u = Reader"
    and j: "get_journalist st jid = Some j"
    and n: "\<forall>s \<in> set (journalist_subscriptions st).
              js_reader s = uid \<and> js_journalist s = jid \<longrightarrow> \<not> js_is_active s"
  shows "unsubscribe_from_journalist st uid jid = (st, Redirect (Some MsgInfo))"
proof -
  have k: "j_id j = jid" using j by (rule get_journalist_id)
  have "filter (\<lambda>s. js_reader s = uid \<and> js_journalist s = jid \<and> js_is_active s)
          (journalist_subscriptions st) = []"
    using n by (auto simp: filter_empty_conv)
  then show ?thesis
    using u j k by (simp add: unsubscribe_from_journalist_def)
qed

lemma unsubscribe_from_journalist_active:
  assumes u: "get_user st uid = Some u" "u_role u = Reader"
    and j: "get_journalist st jid = Some j"
    and q: "js_unique_together st"
    and a: "filter (\<lambda>s. js_reader s = uid \<and> js_journalist s = jid) (journalist_subscriptions st)
              = [\<lparr>js_reader = uid, js_journalist = jid, js_is_active = True\<rparr>]"
  shows "snd (unsubscribe_from_journalist st uid jid) = Redirect (Some MsgSuccess)"
    and "filter (\<lambda>s. js_reader s = uid \<and> js_journalist s = jid)
           (journalist_subscriptions (fst (unsubscribe_from_journalist st uid jid)))
         = [\<lparr>js_reader = uid, js_journalist = jid, js_is_active = False\<rparr>]"
    and "map (\<lambda>s. (js_reader s, js_journalist s))
           (journalist_subscriptions (fst (unsubscribe_from_journalist st uid jid)))
         = map (\<lambda>s. (js_reader s, js_journalist s)) (journalist_subscriptions st)"
    and "\<forall>s \<in> set (journalist_subscriptions st).
           \<not> (js_reader s = uid \<and> js_journalist s = jid) \<longrightarrow>
           s \<in> set (journalist_subscriptions (fst (unsubscribe_from_journalist st uid jid)))"
proof -
  let ?P = "\<lambda>s. js_reader s = uid \<and> js_journalist s = jid"
  let ?up = "map (\<lambda>s. if js_reader s = uid \<and> js_journalist s = jid \<and> js_is_active s
                       then s\<lparr>js_is_active := False\<rparr> else s) (journalist_subscriptions st)"
  have k: "j_id j = jid" using j by (rule get_journalist_id)
  have "filter (\<lambda>s. js_is_active s) (filter ?P (journalist_subscriptions st))
      = [\<lparr>js_reader = uid, js_journalist = jid, js_is_active = True\<rparr>]"
    unfolding a by simp
  then have act: "filter (\<lambda>s. js_reader s = uid \<and> js_journalist s = jid \<and> js_is_active s)
      (journalist_subscriptions st)
      = [\<lparr>js_reader = uid, js_journalist = jid, js_is_active = True\<rparr>]"
    by (simp add: conj_commute conj_left_commute)
  have r: "unsubscribe_from_journalist st uid jid
      = (st\<lparr>journalist_subscriptions := ?up\<rparr>, Redirect (Some MsgSuccess))"
    using u j k act by (simp add: unsubscribe_from_journalist_def)
  have f: "filter ?P ?up
      = map (\<lambda>s. if js_is_active s then s\<lparr>js_is_active := False\<rparr> else s)
          (filter ?P (journalist_subscriptions st))"
    using filter_map_update[of ?P "\<lambda>s. s\<lparr>js_is_active := False\<rparr>" js_is_active
        "journalist_subscriptions st"]
    by (simp add: conj_commute conj_left_commute cong: if_cong)
  show "snd (unsubscribe_from_journalist st uid jid) = Redirect (Some MsgSuccess)"
    by (simp add: r)
  show "filter ?P (journalist_subscriptions (fst (unsubscribe_from_journalist st uid jid)))
         = [\<lparr>js_reader = uid, js_journalist = jid, js_is_active = False\<rparr>]"
    unfolding r using f a by simp
  show "map (\<lambda>s. (js_reader s, js_journalist s))
           (journalist_subscriptions (fst (unsubscribe_from_journalist st uid jid)))
         = map (\<lambda>s. (js_reader s, js_journalist s)) (journalist_subscriptions st)"
    unfolding r by (simp add: comp_def if_distrib cong: if_cong)
  show "\<forall>s \<in> set (journalist_subscriptions st).
           \<not> (js_reader s = uid \<and> js_journalist s = jid) \<longrightarrow>
           s \<in> set (journalist_subscriptions (fst (unsubscribe_from_journalist st uid jid)))"
    unfolding r by (auto simp: image_iff)
qed

lemma journalist_subscription_toggle:
  assumes "get_user st uid = Some u"
  shows "(u_role u \<noteq> Reader \<longrightarrow>
            subscribe_to_journalist st uid jid = (st, Redirect (Some MsgError))
            \<and> unsubscribe_from_journalist st uid jid = (st, Redirect (Some MsgError)))
     \<and> (u_role u = Reader \<and> get_journalist st jid = Some j
          \<and> (\<forall>s \<in> set (journalist_subscriptions st).
                js_reader s = uid \<and> js_journalist s = jid \<longrightarrow> \<not> js_is_active s) \<longrightarrow>
            unsubscribe_from_journalist st uid jid = (st, Redirect (Some MsgInfo)))
     \<and> (u_role u = Reader \<and> get_journalist st jid = Some j \<and> js_unique_together st \<longrightarrow>
          (filter (\<lambda>s. js_reader s = uid \<and> js_journalist s = jid) (journalist_subscriptions st) = []
             \<longrightarrow> journalist_subscriptions (fst (subscribe_to_journalist st uid jid))
                   = journalist_subscriptions st
                     @ [\<lparr>js_reader = uid, js_journalist = jid, js_is_active = True\<rparr>])
          \<and> (filter (\<lambda>s. js_reader s = uid \<and> js_journalist s = jid)
                (journalist_subscriptions st)
               = [\<lparr>js_reader = uid, js_journalist = jid, js_is_active = False\<rparr>]
             \<longrightarrow> journalist_subscriptions (fst (subscribe_to_journalist st uid jid))
                   = map (\<lambda>s. if js_reader s = uid \<and> js_journalist s = jid
                              then s\<lparr>js_is_active := True\<rparr> else s)
                       (journalist_subscriptions st))
          \<and> (filter (\<lambda>s. js_reader s = uid \<and> js_journalist s = jid)
                (journalist_subscriptions st)
               = [\<lparr>js_reader = uid, js_journalist = jid, js_is_active = True\<rparr>]
             \<longrightarrow> subscribe_to_journalist st uid jid = (st, Redirect (Some MsgInfo))
                \<and> snd (unsubscribe_from_journalist st uid jid) = Redirect (Some MsgSuccess)
                \<and> filter (\<lambda>s. js_reader s = uid \<and> js_journalist s = jid)
                     (journalist_subscriptions (fst (unsubscribe_from_journalist st uid jid)))
                   = [\<lparr>js_reader = uid, js_journalist = jid, js_is_active = False\<rparr>]
                \<and> map (\<lambda>s. (js_reader s, js_journalist s))
                     (journalist_subscriptions (fst (unsubscribe_from_journalist st uid jid)))
                   = map (\<lambda>s. (js_reader s, js_journalist s)) (journalist_subscriptions st))
          \<and> filter (\<lambda>s. js_reader s = uid \<and> js_journalist s = jid)
               (journalist_subscriptions (fst (subscribe_to_journalist st uid jid)))
             = [\<lparr>js_reader = uid, js_journalist = jid, js_is_active = True\<rparr>]
          \<and> js_unique_together (fst (subscribe_to_journalist st uid jid))
          \<and> subscribe_to_journalist (fst (subscribe_to_journalist st uid jid)) uid jid
             = (fst (subscribe_to_journalist st uid jid), Redirect (Some MsgInfo)))"
proof -
  have c1: "subscribe_to_journalist st uid jid = (st, Redirect (Some MsgError))
            \<and> unsubscribe_from_journalist st uid jid = (st, Redirect (Some MsgError))"
    if "u_role u \<noteq> Reader"
    using assms that
    by (simp add: subscribe_to_journalist_def unsubscribe_from_journalist_def)
  have c2: "unsubscribe_from_journalist st uid jid = (st, Redirect (Some MsgInfo))"
    if "u_role u = Reader" "get_journalist st jid = Some j"
      "\<forall>s \<in> set (journalist_subscriptions st).
                js_reader s = uid \<and> js_journalist s = jid \<longrightarrow> \<not> js_is_active s"
    using unsubscribe_from_journalist_not_subscribed[OF assms that] .
  have c3: "subscribe_to_journalist st uid jid = (st, Redirect (Some MsgInfo))"
    if "u_role u = Reader" "get_journalist st jid = Some j"
      "filter (\<lambda>s. js_reader s = uid \<and> js_journalist s = jid) (journalist_subscriptions st)
               = [\<lparr>js_reader = uid, js_journalist = jid, js_is_active = True\<rparr>]"
    using assms that get_journalist_id[OF that(2)]
    by (simp add: subscribe_to_journalist_def)
  have c4: "(filter (\<lambda>s. js_reader s = uid \<and> js_journalist s = jid) (journalist_subscriptions st) = []
             \<longrightarrow> journalist_subscriptions (fst (subscribe_to_journalist st uid jid))
                   = journalist_subscriptions st
                     @ [\<lparr>js_reader = uid, js_journalist = jid, js_is_active = True\<rparr>])
          \<and> (filter (\<lambda>s. js_reader s = uid \<and> js_journalist s = jid)
                (journalist_subscriptions st)
               = [\<lparr>js_reader = uid, js_journalist = jid, js_is_active = False\<rparr>]
             \<longrightarrow> journalist_subscriptions (fst (subscribe_to_journalist st uid jid))
                   = map (\<lambda>s. if js_reader s = uid \<and> js_journalist s = jid
                              then s\<lparr>js_is_active := True\<rparr> else s)
                       (journalist_subscriptions st))"
    if "u_role u = Reader" "get_journalist st jid = Some j" "js_unique_together st"
    unfolding subscribe_to_journalist_table[OF assms that] by simp
  have c5: "snd (unsubscribe_from_journalist st uid jid) = Redirect (Some MsgSuccess)
                \<and> filter (\<lambda>s. js_reader s = uid \<and> js_journalist s = jid)
                     (journalist_subscriptions (fst (unsubscribe_from_journalist st uid jid)))
                   = [\<lparr>js_reader = uid, js_journalist = jid, js_is_active = False\<rparr>]
                \<and> map (\<lambda>s. (js_reader s, js_journalist s))
                     (journalist_subscriptions (fst (unsubscribe_from_journalist st uid jid)))
                   = map (\<lambda>s. (js_reader s, js_journalist s)) (journalist_subscriptions st)"
    if "u_role u = Reader" "get_journalist st jid = Some j" "js_unique_together st"
      "filter (\<lambda>s. js_reader s = uid \<and> js_journalist s = jid) (journalist_subscriptions st)
               = [\<lparr>js_reader = uid, js_journalist = jid, js_is_active = True\<rparr>]"
    using unsubscribe_from_journalist_active(1,2,3)[OF assms that] by (intro conjI)
  have c6: "filter (\<lambda>s. js_reader s = uid \<and> js_journalist s = jid)
               (journalist_subscriptions (fst (subscribe_to_journalist st uid jid)))
             = [\<lparr>js_reader = uid, js_journalist = jid, js_is_active = True\<rparr>]
          \<and> js_unique_together (fst (subscribe_to_journalist st uid jid))
          \<and> subscribe_to_journalist (fst (subscribe_to_journalist st uid jid)) uid jid
             = (fst (subscribe_to_journalist st uid jid), Redirect (Some MsgInfo))"
    if "u_role u = Reader" "get_journalist st jid = Some j" "js_unique_together st"
    using subscribe_to_journalist_rows[OF assms that]
      subscribe_to_journalist_twice[OF assms that] by (intro conjI)
  show ?thesis
    using c1 c2 c3 c4 c5 c6 by blast
qed

lemma ps_rows_cases:
  assumes "ps_unique_together st"
  shows "filter (\<lambda>s. ps_reader s = uid \<and> ps_publisher s = pid) (publisher_subscriptions st) = []
     \<or> (\<exists>b. filter (\<lambda>s. ps_reader s = uid \<and> ps_publisher s = pid)
                (publisher_subscriptions st)
              = [\<lparr>ps_reader = uid, ps_publisher = pid, ps_is_active = b\<rparr>])"
proof -
  let ?xs = "filter (\<lambda>s. ps_reader s = uid \<and> ps_publisher s = pid) (publisher_subscriptions st)"
  from filter_unique_key[OF assms[unfolded ps_unique_together_def], of "(uid, pid)"]
  have "?xs = [] \<or> (\<exists>s. ?xs = [s])"
    by simp
  moreover have "s = \<lparr>ps_reader = uid, ps_publisher = pid, ps_is_active = ps_is_active s\<rparr>"
    if "?xs = [s]" for s
  proof -
    have "s \<in> set ?xs" using that by simp
    then show ?thesis by auto
  qed
  ultimately show ?thesis
    by metis
qed

text \<open>The rows of the pair after \<open>subscribe_to_publisher\<close>, and the table.\<close>

lemma subscribe_to_publisher_table:
  assumes u: "get_user st uid = Some u" "u_role u = Reader"
    and p: "get_publisher st pid = Some p"
    and q: "ps_unique_together st"
  shows "publisher_subscriptions (fst (subscribe_to_publisher st uid pid)) =
     (if filter (\<lambda>s. ps_reader s = uid \<and> ps_publisher s = pid) (publisher_subscriptions st) = []
      then publisher_subscriptions st
             @ [\<lparr>ps_reader = uid, ps_publisher = pid, ps_is_active = True\<rparr>]
      else map (\<lambda>s. if ps_reader s = uid \<and> ps_publisher s = pid
                     then s\<lparr>ps_is_active := True\<rparr> else s) (publisher_subscriptions st))"
proof -
  have k: "p_id p = pid" using p by (rule get_publisher_id)
  let ?xs = "filter (\<lambda>s. ps_reader s = uid \<and> ps_publisher s = pid) (publisher_subscriptions st)"
  consider "?xs = []" | b where "?xs = [\<lparr>ps_reader = uid, ps_publisher = pid, ps_is_active = b\<rparr>]"
    using ps_rows_cases[OF q, of uid pid] by blast
  then show ?thesis
  proof cases
    case 1
    then show ?thesis
      using u p k by (simp add: subscribe_to_publisher_def)
  next
    case 2
    have same: "map (\<lambda>s. if ps_reader s = uid \<and> ps_publisher s = pid
                     then s\<lparr>ps_is_active := True\<rparr> else s) (publisher_subscriptions st)
        = publisher_subscriptions st" if "b"
    proof -
      have "\<forall>s \<in> set (publisher_subscriptions st).
          ps_reader s = uid \<and> ps_publisher s = pid \<longrightarrow> s\<lparr>ps_is_active := True\<rparr> = s"
      proof (intro ballI impI)
        fix s assume "s \<in> set (publisher_subscriptions st)"
          and "ps_reader s = uid \<and> ps_publisher s = pid"
        then have "s \<in> set ?xs" by simp
        with 2 that show "s\<lparr>ps_is_active := True\<rparr> = s" by simp
      qed
      then show ?thesis
        by (simp add: map_idI)
    qed
    show ?thesis
      using u p k 2 same by (cases b) (simp_all add: subscribe_to_publisher_def)
  qed
qed

lemma subscribe_to_publisher_rows:
  assumes u: "get_user st uid = Some u" "u_role u = Reader"
    and p: "get_publisher st pid = Some p"
    and q: "ps_unique_together st"
  shows "filter (\<lambda>s. ps_reader s = uid \<and> ps_publisher s = pid)
           (publisher_subscriptions (fst (subscribe_to_publisher st uid pid)))
         = [\<lparr>ps_reader = uid, ps_publisher = pid, ps_is_active = True\<rparr>]"
    and "ps_unique_together (fst (subscribe_to_publisher st uid pid))"
proof -
  let ?P = "\<lambda>s. ps_reader s = uid \<and> ps_publisher s = pid"
  let ?xs = "filter ?P (publisher_subscriptions st)"
  let ?up = "map (\<lambda>s. if ps_reader s = uid \<and> ps_publisher s = pid
                     then s\<lparr>ps_is_active := True\<rparr> else s) (publisher_subscriptions st)"
  have f: "filter ?P ?up = map (\<lambda>s. s\<lparr>ps_is_active := True\<rparr>) ?xs"
    using filter_map_update[of ?P "\<lambda>s. s\<lparr>ps_is_active := True\<rparr>" "\<lambda>s. True"
        "publisher_subscriptions st"]
    by simp
  have m: "map (\<lambda>s. (ps_reader s, ps_publisher s)) ?up
      = map (\<lambda>s. (ps_reader s, ps_publisher s)) (publisher_subscriptions st)"
    by (simp add: comp_def if_distrib cong: if_cong)
  have d: "distinct (map (\<lambda>s. (ps_reader s, ps_publisher s)) ?up)"
    unfolding m using q by (simp only: ps_unique_together_def)
  consider "?xs = []" | b where "?xs = [\<lparr>ps_reader = uid, ps_publisher = pid, ps_is_active = b\<rparr>]"
    using ps_rows_cases[OF q, of uid pid] by blast
  then have "filter ?P (publisher_subscriptions (fst (subscribe_to_publisher st uid pid)))
         = [\<lparr>ps_reader = uid, ps_publisher = pid, ps_is_active = True\<rparr>]
      \<and> ps_unique_together (fst (subscribe_to_publisher st uid pid))"
  proof cases
    case 1
    then have "(uid, pid) \<notin> set (map (\<lambda>s. (ps_reader s, ps_publisher s))
                                   (publisher_subscriptions st))"
      by (auto simp: filter_empty_conv)
    then show ?thesis
      unfolding ps_unique_together_def subscribe_to_publisher_table[OF u p q]
      using 1 q[unfolded ps_unique_together_def] by simp
  next
    case 2
    then have t: "publisher_subscriptions (fst (subscribe_to_publisher st uid pid)) = ?up"
      unfolding subscribe_to_publisher_table[OF u p q] by simp
    show ?thesis
      unfolding ps_unique_together_def t using f d 2 by simp
  qed
  then show "filter ?P (publisher_subscriptions (fst (subscribe_to_publisher st uid pid)))
         = [\<lparr>ps_reader = uid, ps_publisher = pid, ps_is_active = True\<rparr>]"
    and "ps_unique_together (fst (subscribe_to_publisher st uid pid))"
    by simp_all
qed

lemma subscribe_to_publisher_state:
  "fst (subscribe_to_publisher st uid pid)
     = st\<lparr>publisher_subscriptions :=
            publisher_subscriptions (fst (subscribe_to_publisher st uid pid))\<rparr>"
  by (simp add: subscribe_to_publisher_def split: option.splits list.splits)

lemma subscribe_to_publisher_twice:
  assumes u: "get_user st uid = Some u" "u_role u = Reader"
    and p: "get_publisher st pid = Some p"
    and q: "ps_unique_together st"
  shows "subscribe_to_publisher (fst (subscribe_to_publisher st uid pid)) uid pid
     = (fst (subscribe_to_publisher st uid pid), Redirect (Some MsgInfo))"
proof -
  let ?st1 = "fst (subscribe_to_publisher st uid pid)"
  have u1: "get_user ?st1 uid = Some u"
    using u(1) by (subst subscribe_to_publisher_state) (simp add: get_user_def)
  have j1: "get_publisher ?st1 pid = Some p"
    using p by (subst subscribe_to_publisher_state) (simp add: get_publisher_def)
  have k: "p_id p = pid" using p by (rule get_publisher_id)
  show ?thesis
    using u1 u(2) j1 k subscribe_to_publisher_rows(1)[OF u p q]
    by (simp add: subscribe_to_publisher_def[of ?st1])
qed

lemma unsubscribe_from_publisher_not_subscribed:
  assumes u: "get_user st uid = Some u" "u_role u = Reader"
    and p: "get_publisher st pid = Some p"
    and n: "\<forall>s \<in> set (publisher_subscriptions st).
              ps_reader s = uid \<and> ps_publisher s = pid \<longrightarrow> \<not> ps_is_active s"
  shows "unsubscribe_from_publisher st uid pid = (st, Redirect (Some MsgInfo))"
proof -
  have k: "p_id p = pid" using p by (rule get_publisher_id)
  have "filter (\<lambda>s. ps_reader s = uid \<and> ps_publisher s = pid \<and> ps_is_active s)
          (publisher_subscriptions st) = []"
    using n by (auto simp: filter_empty_conv)
  then show ?thesis
    using u p k by (simp add: unsubscribe_from_publisher_def)
qed

lemma unsubscribe_from_publisher_active:
  assumes u: "get_user st uid = Some u" "u_role u = Reader"
    and p: "get_publisher st pid = Some p"
    and q: "ps_unique_together st"
    and a: "filter (\<lambda>s. ps_reader s = uid \<and> ps_publisher s = pid) (publisher_subscriptions st)
              = [\<lparr>ps_reader = uid, ps_publisher = pid, ps_is_active = True\<rparr>]"
  shows "snd (unsubscribe_from_publisher st uid pid) = Redirect (Some MsgSuccess)"
    and "filter (\<lambda>s. ps_reader s = uid \<and> ps_publisher s = pid)
           (publisher_subscriptions (fst (unsubscribe_from_publisher st uid pid)))
         = [\<lparr>ps_reader = uid, ps_publisher = pid, ps_is_active = False\<rparr>]"
    and "map (\<lambda>s. (ps_reader s, ps_publisher s))
           (publisher_subscriptions (fst (unsubscribe_from_publisher st uid pid)))
         = map (\<lambda>s. (ps_reader s, ps_publisher s)) (publisher_subscriptions st)"
    and "\<forall>s \<in> set (publisher_subscriptions st).
           \<not> (ps_reader s = uid \<and> ps_publisher s = pid) \<longrightarrow>
           s \<in> set (publisher_subscriptions (fst (unsubscribe_from_publisher st uid pid)))"
proof -
  let ?P = "\<lambda>s. ps_reader s = uid \<and> ps_publisher s = pid"
  let ?up = "map (\<lambda>s. if ps_reader s = uid \<and> ps_publisher s = pid \<and> ps_is_active s
                       then s\<lparr>ps_is_active := False\<rparr> else s) (publisher_subscriptions st)"
  have k: "p_id p = pid" using p by (rule get_publisher_id)
  have "filter (\<lambda>s. ps_is_active s) (filter ?P (publisher_subscriptions st))
      = [\<lparr>ps_reader = uid, ps_publisher = pid, ps_is_active = True\<rparr>]"
    unfolding a by simp
  then have act: "filter (\<lambda>s. ps_reader s = uid \<and> ps_publisher s = pid \<and> ps_is_active s)
      (publisher_subscriptions st)
      = [\<lparr>ps_reader = uid, ps_publisher = pid, ps_is_active = True\<rparr>]"
    by (simp add: conj_commute conj_left_commute)
  have r: "unsubscribe_from_publisher st uid pid
      = (st\<lparr>publisher_subscriptions := ?up\<rparr>, Redirect (Some MsgSuccess))"
    using u p k act by (simp add: unsubscribe_from_publisher_def)
  have f: "filter ?P ?up
      = map (\<lambda>s. if ps_is_active s then s\<lparr>ps_is_active := False\<rparr> else s)
          (filter ?P (publisher_subscriptions st))"
    using filter_map_update[of ?P "\<lambda>s. s\<lparr>ps_is_active := False\<rparr>" ps_is_active
        "publisher_subscriptions st"]
    by (simp add: conj_commute conj_left_commute cong: if_cong)
  show "snd (unsubscribe_from_publisher st uid pid) = Redirect (Some MsgSuccess)"
    by (simp add: r)
  show "filter ?P (publisher_subscriptions (fst (unsubscribe_from_publisher st uid pid)))
         = [\<lparr>ps_reader = uid, ps_publisher = pid, ps_is_active = False\<rparr>]"
    unfolding r using f a by simp
  show "map (\<lambda>s. (ps_reader s, ps_publisher s))
           (publisher_subscriptions (fst (unsubscribe_from_publisher st uid pid)))
         = map (\<lambda>s. (ps_reader s, ps_publisher s)) (publisher_subscriptions st)"
    unfolding r by (simp add: comp_def if_distrib cong: if_cong)
  show "\<forall>s \<in> set (publisher_subscriptions st).
           \<not> (ps_reader s = uid \<and> ps_publisher s = pid) \<longrightarrow>
           s \<in> set (publisher_subscriptions (fst (unsubscribe_from_publisher st uid pid)))"
    unfolding r by (auto simp: image_iff)
qed

lemma publisher_subscription_toggle:
  assumes "get_user st uid = Some u"
  shows "(u_role u \<noteq> Reader \<longrightarrow>
            subscribe_to_publisher st uid pid = (st, Redirect (Some MsgError))
            \<and> unsubscribe_from_publisher st uid pid = (st, Redirect (Some MsgError)))
     \<and> (u_role u = Reader \<and> get_publisher st pid = Some p
          \<and> (\<forall>s \<in> set (publisher_subscriptions st).
                ps_reader s = uid \<and> ps_publisher s = pid \<longrightarrow> \<not> ps_is_active s) \<longrightarrow>
            unsubscribe_from_publisher st uid pid = (st, Redirect (Some MsgInfo)))
     \<and> (u_role u = Reader \<and> get_publisher st pid = Some p \<and> ps_unique_together st \<longrightarrow>
          (filter (\<lambda>s. ps_reader s = uid \<and> ps_publisher s = pid) (publisher_subscriptions st) = []
             \<longrightarrow> publisher_subscriptions (fst (subscribe_to_publisher st uid pid))
                   = publisher_subscriptions st
                     @ [\<lparr>ps_reader = uid, ps_publisher = pid, ps_is_active = True\<rparr>])
          \<and> (filter (\<lambda>s. ps_reader s = uid \<and> ps_publisher s = pid)
                (publisher_subscriptions st)
               = [\<lparr>ps_reader = uid, ps_publisher = pid, ps_is_active = False\<rparr>]
             \<longrightarrow> publisher_subscriptions (fst (subscribe_to_publisher st uid pid))
                   = map (\<lambda>s. if ps_reader s = uid \<and> ps_publisher s = pid
                              then s\<lparr>ps_is_active := True\<rparr> else s)
                       (publisher_subscriptions st))
          \<and> (filter (\<lambda>s. ps_reader s = uid \<and> ps_publisher s = pid)
                (publisher_subscriptions st)
               = [\<lparr>ps_reader = uid, ps_publisher = pid, ps_is_active = True\<rparr>]
             \<longrightarrow> subscribe_to_publisher st uid pid = (st, Redirect (Some MsgInfo))
                \<and> snd (unsubscribe_from_publisher st uid pid) = Redirect (Some MsgSuccess)
                \<and> filter (\<lambda>s. ps_reader s = uid \<and> ps_publisher s = pid)
                     (publisher_subscriptions (fst (unsubscribe_from_publisher st uid pid)))
                   = [\<lparr>ps_reader = uid, ps_publisher = pid, ps_is_active = False\<rparr>]
                \<and> map (\<lambda>s. (ps_reader s, ps_publisher s))
                     (publisher_subscriptions (fst (unsubscribe_from_publisher st uid pid)))
                   = map (\<lambda>s. (ps_reader s, ps_publisher s)) (publisher_subscriptions st))
          \<and> filter (\<lambda>s. ps_reader s = uid \<and> ps_publisher s = pid)
               (publisher_subscriptions (fst (subscribe_to_publisher st uid pid)))
             = [\<lparr>ps_reader = uid, ps_publisher = pid, ps_is_active = True\<rparr>]
          \<and> ps_unique_together (fst (subscribe_to_publisher st uid pid))
          \<and> subscribe_to_publisher (fst (subscribe_to_publisher st uid pid)) uid pid
             = (fst (subscribe_to_publisher st uid pid), Redirect (Some MsgInfo)))"
proof -
  have c1: "subscribe_to_publisher st uid pid = (st, Redirect (Some MsgError))
            \<and> unsubscribe_from_publisher st uid pid = (st, Redirect (Some MsgError))"
    if "u_role u \<noteq> Reader"
    using assms that
    by (simp add: subscribe_to_publisher_def unsubscribe_from_publisher_def)
  have c2: "unsubscribe_from_publisher st uid pid = (st, Redirect (Some MsgInfo))"
    if "u_role u = Reader" "get_publisher st pid = Some p"
      "\<forall>s \<in> set (publisher_subscriptions st).
                ps_reader s = uid \<and> ps_publisher s = pid \<longrightarrow> \<not> ps_is_active s"
    using unsubscribe_from_publisher_not_subscribed[OF assms that] .
  have c3: "subscribe_to_publisher st uid pid = (st, Redirect (Some MsgInfo))"
    if "u_role u = Reader" "get_publisher st pid = Some p"
      "filter (\<lambda>s. ps_reader s = uid \<and> ps_publisher s = pid) (publisher_subscriptions st)
               = [\<lparr>ps_reader = uid, ps_publisher = pid, ps_is_active = True\<rparr>]"
    using assms that get_publisher_id[OF that(2)]
    by (simp add: subscribe_to_publisher_def)
  have c4: "(filter (\<lambda>s. ps_reader s = uid \<and> ps_publisher s = pid) (publisher_subscriptions st) = []
             \<longrightarrow> publisher_subscriptions (fst (subscribe_to_publisher st uid pid))
                   = publisher_subscriptions st
                     @ [\<lparr>ps_reader = uid, ps_publisher = pid, ps_is_active = True\<rparr>])
          \<and> (filter (\<lambda>s. ps_reader s = uid \<and> ps_publisher s = pid)
                (publisher_subscriptions st)
               = [\<lparr>ps_reader = uid, ps_publisher = pid, ps_is_active = False\<rparr>]
             \<longrightarrow> publisher_subscriptions (fst (subscribe_to_publisher st uid pid))
                   = map (\<lambda>s. if ps_reader s = uid \<and> ps_publisher s = pid
                              then s\<lparr>ps_is_active := True\<rparr> else s)
                       (publisher_subscriptions st))"
    if "u_role u = Reader" "get_publisher st pid = Some p" "ps_unique_together st"
    unfolding subscribe_to_publisher_table[OF assms that] by simp
  have c5: "snd (unsubscribe_from_publisher st uid pid) = Redirect (Some MsgSuccess)
                \<and> filter (\<lambda>s. ps_reader s = uid \<and> ps_publisher s = pid)
                     (publisher_subscriptions (fst (unsubscribe_from_publisher st uid pid)))
                   = [\<lparr>ps_reader = uid, ps_publisher = pid, ps_is_active = False\<rparr>]
                \<and> map (\<lambda>s. (ps_reader s, ps_publisher s))
                     (publisher_subscriptions (fst (unsubscribe_from_publisher st uid pid)))
                   = map (\<lambda>s. (ps_reader s, ps_publisher s)) (publisher_subscriptions st)"
    if "u_role u = Reader" "get_publisher st pid = Some p" "ps_unique_together st"
      "filter (\<lambda>s. ps_reader s = uid \<and> ps_publisher s = pid) (publisher_subscriptions st)
               = [\<lparr>ps_reader = uid, ps_publisher = pid, ps_is_active = True\<rparr>]"
    using unsubscribe_from_publisher_active(1,2,3)[OF assms that] by (intro conjI)
  have c6: "filter (\<lambda>s. ps_reader s = uid \<and> ps_publisher s = pid)
               (publisher_subscriptions (fst (subscribe_to_publisher st uid pid)))
             = [\<lparr>ps_reader = uid, ps_publisher = pid, ps_is_active = True\<rparr>]
          \<and> ps_unique_together (fst (subscribe_to_publisher st uid pid))
          \<and> subscribe_to_publisher (fst (subscribe_to_publisher st uid pid)) uid pid
             = (fst (subscribe_to_publisher st uid pid), Redirect (Some MsgInfo))"
    if "u_role u = Reader" "get_publisher st pid = Some p" "ps_unique_together st"
    using subscribe_to_publisher_rows[OF assms that]
      subscribe_to_publisher_twice[OF assms that] by (intro conjI)
  show ?thesis
    using c1 c2 c3 c4 c5 c6 by blast
qed

text \<open>
  Claim C5. For a caller who is a user, a target row that exists and a subscription table
  whose pairs (reader, target) are distinct (\<open>unique_together\<close>), for journalists and for
  publishers alike:
  \<^item> a caller whose role is not reader is refused by both views with an error message
    and no change;
  \<^item> \<open>subscribe\<close> appends one active row when the pair has no row, reactivates the row
    when it is inactive, and changes nothing when it is active; afterwards the pair has
    exactly one row, which is active, the pairs are still distinct, and a second
    \<open>subscribe\<close> changes nothing;
  \<^item> \<open>unsubscribe\<close> sets the active row of the pair inactive and drops or adds no row;
    when the pair has no active row it changes nothing and raises nothing.
\<close>

theorem subscription_toggle:
  assumes "get_user st uid = Some u"
  shows "((u_role u \<noteq> Reader \<longrightarrow>
               subscribe_to_journalist st uid jid = (st, Redirect (Some MsgError))
               \<and> unsubscribe_from_journalist st uid jid = (st, Redirect (Some MsgError)))
        \<and> (u_role u = Reader \<and> get_journalist st jid = Some j
             \<and> (\<forall>s \<in> set (journalist_subscriptions st).
                   js_reader s = uid \<and> js_journalist s = jid \<longrightarrow> \<not> js_is_active s) \<longrightarrow>
               unsubscribe_from_journalist st uid jid = (st, Redirect (Some MsgInfo)))
        \<and> (u_role u = Reader \<and> get_journalist st jid = Some j \<and> js_unique_together st \<longrightarrow>
             (filter (\<lambda>s. js_reader s = uid \<and> js_journalist s = jid) (journalist_subscriptions st) = []
                \<longrightarrow> journalist_subscriptions (fst (subscribe_to_journalist st uid jid))
                      = journalist_subscriptions st
                        @ [\<lparr>js_reader = uid, js_journalist = jid, js_is_active = True\<rparr>])
             \<and> (filter (\<lambda>s. js_reader s = uid \<and> js_journalist s = jid)
                   (journalist_subscriptions st)
                  = [\<lparr>js_reader = uid, js_journalist = jid, js_is_active = False\<rparr>]
                \<longrightarrow> journalist_subscriptions (fst (subscribe_to_journalist st uid jid))
                      = map (\<lambda>s. if js_reader s = uid \<and> js_journalist s = jid
                                 then s\<lparr>js_is_active := True\<rparr> else s)
                          (journalist_subscriptions st))
             \<and> (filter (\<lambda>s. js_reader s = uid \<and> js_journalist s = jid)
                   (journalist_subscriptions st)
                  = [\<lparr>js_reader = uid, js_journalist = jid, js_is_active = True\<rparr>]
                \<longrightarrow> subscribe_to_journalist st uid jid = (st, Redirect (Some MsgInfo))
                   \<and> snd (unsubscribe_from_journalist st uid jid) = Redirect (Some MsgSuccess)
                   \<and> filter (\<lambda>s. js_reader s = uid \<and> js_journalist s = jid)
                        (journalist_subscriptions (fst (unsubscribe_from_journalist st uid jid)))
                      = [\<lparr>js_reader = uid, js_journalist = jid, js_is_active = False\<rparr>]
                   \<and> map (\<lambda>s. (js_reader s, js_journalist s))
                        (journalist_subscriptions (fst (unsubscribe_from_journalist st uid jid)))
                      = map (\<lambda>s. (js_reader s, js_journalist s)) (journalist_subscriptions st))
             \<and> filter (\<lambda>s. js_reader s = uid \<and> js_journalist s = jid)
                  (journalist_subscriptions (fst (subscribe_to_journalist st uid jid)))
                = [\<lparr>js_reader = uid, js_journalist = jid, js_is_active = True\<rparr>]
             \<and> js_unique_together (fst (subscribe_to_journalist st uid jid))
             \<and> subscribe_to_journalist (fst (subscribe_to_journalist st uid jid)) uid jid
                = (fst (subscribe_to_journalist st uid jid), Redirect (Some MsgInfo))))
   \<and> ((u_role u \<noteq> Reader \<longrightarrow>
               subscribe_to_publisher st uid pid = (st, Redirect (Some MsgError))
               \<and> unsubscribe_from_publisher st uid pid = (st, Redirect (Some MsgError)))
        \<and> (u_role u = Reader \<and> get_publisher st pid = Some p
             \<and> (\<forall>s \<in> set (publisher_subscriptions st).
                   ps_reader s = uid \<and> ps_publisher s = pid \<longrightarrow> \<not> ps_is_active s) \<longrightarrow>
               unsubscribe_from_publisher st uid pid = (st, Redirect (Some MsgInfo)))
        \<and> (u_role u = Reader \<and> get_publisher st pid = Some p \<and> ps_unique_together st \<longrightarrow>
             (filter (\<lambda>s. ps_reader s = uid \<and> ps_publisher s = pid) (publisher_subscriptions st) = []
                \<longrightarrow> publisher_subscriptions (fst (subscribe_to_publisher st uid pid))
                      = publisher_subscriptions st
                        @ [\<lparr>ps_reader = uid, ps_publisher = pid, ps_is_active = True\<rparr>])
             \<and> (filter (\<lambda>s. ps_reader s = uid \<and> ps_publisher s = pid)
                   (publisher_subscriptions st)
                  = [\<lparr>ps_reader = uid, ps_publisher = pid, ps_is_active = False\<rparr>]
                \<longrightarrow> publisher_subscriptions (fst (subscribe_to_publisher st uid pid))
                      = map (\<lambda>s. if ps_reader s = uid \<and> ps_publisher s = pid
                                 then s\<lparr>ps_is_active := True\<rparr> else s)
                          (publisher_subscriptions st))
             \<and> (filter (\<lambda>s. ps_reader s = uid \<and> ps_publisher s = pid)
                   (publisher_subscriptions st)
                  = [\<lparr>ps_reader = uid, ps_publisher = pid, ps_is_active = True\<rparr>]
                \<longrightarrow> subscribe_to_publisher st uid pid = (st, Redirect (Some MsgInfo))
                   \<and> snd (unsubscribe_from_publisher st uid pid) = Redirect (Some MsgSuccess)
                   \<and> filter (\<lambda>s. ps_reader s = uid \<and> ps_publisher s = pid)
                        (publisher_subscriptions (fst (unsubscribe_from_publisher st uid pid)))
                      = [\<lparr>ps_reader = uid, ps_publisher = pid, ps_is_active = False\<rparr>]
                   \<and> map (\<lambda>s. (ps_reader s, ps_publisher s))
                        (publisher_subscriptions (fst (unsubscribe_from_publisher st uid pid)))
                      = map (\<lambda>s. (ps_reader s, ps_publisher s)) (publisher_subscriptions st))
             \<and> filter (\<lambda>s. ps_reader s = uid \<and> ps_publisher s = pid)
                  (publisher_subscriptions (fst (subscribe_to_publisher st uid pid)))
                = [\<lparr>ps_reader = uid, ps_publisher = pid, ps_is_active = True\<rparr>]
             \<and> ps_unique_together (fst (subscribe_to_publisher st uid pid))
             \<and> subscribe_to_publisher (fst (subscribe_to_publisher st uid pid)) uid pid
                = (fst (subscribe_to_publisher st uid pid), Redirect (Some MsgInfo))))"
  using journalist_subscription_toggle[OF assms, of jid j]
    publisher_subscription_toggle[OF assms, of pid p]
  by (rule conjI)

theorem subscription_toggle_witness:
  "get_user example_db 1 = Some alice \<and> u_role alice = Reader
   \<and> get_journalist example_db 2 = Some \<lparr>j_id = 2, j_user = 7, j_publisher = 2\<rparr>
   \<and> get_publisher example_db 1 = Some \<lparr>p_id = 1, p_user = 4, p_name = ''Acme''\<rparr>
   \<and> js_unique_together example_db \<and> ps_unique_together example_db
   \<and> journalist_subscriptions (fst (subscribe_to_journalist example_db 1 2))
       = journalist_subscriptions example_db
         @ [\<lparr>js_reader = 1, js_journalist = 2, js_is_active = True\<rparr>]
   \<and> subscribe_to_journalist (fst (subscribe_to_journalist example_db 1 2)) 1 2
       = (fst (subscribe_to_journalist example_db 1 2), Redirect (Some MsgInfo))
   \<and> subscribe_to_publisher example_db 1 1 = (example_db, Redirect (Some MsgInfo))
   \<and> filter (\<lambda>s. ps_reader s = 1 \<and> ps_publisher s = 1)
        (publisher_subscriptions (fst (unsubscribe_from_publisher example_db 1 1)))
       = [\<lparr>ps_reader = 1, ps_publisher = 1, ps_is_active = False\<rparr>]
   \<and> unsubscribe_from_journalist example_db 1 2 = (example_db, Redirect (Some MsgInfo))"
proof -
  have h: "get_user example_db 1 = Some alice" "u_role alice = Reader"
    "get_journalist example_db 2 = Some \<lparr>j_id = 2, j_user = 7, j_publisher = 2\<rparr>"
    "get_publisher example_db 1 = Some \<lparr>p_id = 1, p_user = 4, p_name = ''Acme''\<rparr>"
    "js_unique_together example_db" "ps_unique_together example_db"
    by (simp_all add: get_user_def get_journalist_def get_publisher_def
        js_unique_together_def ps_unique_together_def example_defs)
  have f: "filter (\<lambda>s. js_reader s = 1 \<and> js_journalist s = 2)
             (journalist_subscriptions example_db) = []"
    "filter (\<lambda>s. ps_reader s = 1 \<and> ps_publisher s = 1)
             (publisher_subscriptions example_db)
       = [\<lparr>ps_reader = 1, ps_publisher = 1, ps_is_active = True\<rparr>]"
    "\<forall>s \<in> set (journalist_subscriptions example_db).
        js_reader s = 1 \<and> js_journalist s = 2 \<longrightarrow> \<not> js_is_active s"
    by (simp_all add: example_db_def)
  show ?thesis
    using subscription_toggle[OF h(1), of 2 "\<lparr>j_id = 2, j_user = 7, j_publisher = 2\<rparr>"
        1 "\<lparr>p_id = 1, p_user = 4, p_name = ''Acme''\<rparr>"] h f
    by simp
qed

subsection \<open>Notification of subscribers\<close>

lemma notify_subscribers_cong:
  assumes "users st' = users st" "journalists st' = journalists st"
    "publishers st' = publishers st"
  shows "notify_subscribers st' a rs seen = notify_subscribers st a rs seen"
proof -
  have g: "get_user st' = get_user st"
    using assms by (simp add: fun_eq_iff get_user_def)
  have b: "build_new_article_notification_email st' = build_new_article_notification_email st"
  proof -
    have gj: "get_journalist st' = get_journalist st"
      and gp: "get_publisher st' = get_publisher st"
      using assms by (simp_all add: fun_eq_iff get_journalist_def get_publisher_def)
    show ?thesis
      unfolding fun_eq_iff build_new_article_notification_email_def g gj gp by simp
  qed
  show ?thesis
    by (induction rs arbitrary: seen) (simp_all add: g b split: option.splits)
qed

lemma delivered_notification:
  assumes "\<not> multi_line t"
  shows "delivered t (NewArticleNotificationEmail x k)
     = (if x = [] \<or> multi_line x then [] else [NewArticleNotificationEmail x k])"
  using assms by (simp add: delivered_def)

text \<open>With every reader a user, the rows the message reads in place and a title of one
  line, the loop sends one message to each address it has not seen that is not blank and
  has no line break, in the order of first occurrence.\<close>

lemma notify_subscribers_addresses:
  assumes "\<forall>r \<in> set rs. get_user st r \<noteq> None"
    and "get_journalist st (a_journalist a) = Some j" "get_user st (j_user j) = Some ju"
    and "get_publisher st (a_publisher a) = Some p"
    and "\<not> multi_line (a_title a)"
  shows "\<exists>addrs. notify_subscribers st a rs seen
            = map (\<lambda>x. NewArticleNotificationEmail x (a_id a)) addrs
         \<and> distinct addrs
         \<and> set addrs = {u_email u | u k. k \<in> set rs \<and> get_user st k = Some u
                           \<and> u_email u \<noteq> [] \<and> \<not> multi_line (u_email u)} - set seen"
  using assms(1)
proof (induction rs arbitrary: seen)
  case Nil
  then show ?case by simp
next
  case (Cons r rs)
  from Cons.prems obtain su where su: "get_user st r = Some su"
    by auto
  have b: "build_new_article_notification_email st su a
      = Some (NewArticleNotificationEmail (u_email su) (a_id a))"
    using assms(2-4) by (simp add: build_new_article_notification_email_def)
  have rest: "\<forall>r \<in> set rs. get_user st r \<noteq> None"
    using Cons.prems by simp
  show ?case
  proof (cases "u_email su \<in> set seen")
    case True
    from Cons.IH[OF rest, of seen] obtain addrs where
      a: "notify_subscribers st a rs seen = map (\<lambda>x. NewArticleNotificationEmail x (a_id a)) addrs"
      "distinct addrs"
      "set addrs = {u_email u | u k. k \<in> set rs \<and> get_user st k = Some u
                      \<and> u_email u \<noteq> [] \<and> \<not> multi_line (u_email u)} - set seen"
      by blast
    have "set addrs = {u_email u | u k. k \<in> set (r # rs) \<and> get_user st k = Some u
                         \<and> u_email u \<noteq> [] \<and> \<not> multi_line (u_email u)} - set seen"
      unfolding a(3) using True su by auto
    then show ?thesis
      using a(1,2) su True by auto
  next
    case False
    from Cons.IH[OF rest, of "u_email su # seen"] obtain addrs where
      a: "notify_subscribers st a rs (u_email su # seen)
            = map (\<lambda>x. NewArticleNotificationEmail x (a_id a)) addrs"
      "distinct addrs"
      "set addrs = {u_email u | u k. k \<in> set rs \<and> get_user st k = Some u
                      \<and> u_email u \<noteq> [] \<and> \<not> multi_line (u_email u)}
                     - set (u_email su # seen)"
      by blast
    have n0: "notify_subscribers st a (r # rs) seen
        = delivered (a_title a) (NewArticleNotificationEmail (u_email su) (a_id a))
          @ map (\<lambda>x. NewArticleNotificationEmail x (a_id a)) addrs"
      using su b False a(1) by simp
    show ?thesis
    proof (cases "u_email su = [] \<or> multi_line (u_email su)")
      case bad: True
      have n: "notify_subscribers st a (r # rs) seen
          = map (\<lambda>x. NewArticleNotificationEmail x (a_id a)) addrs"
        unfolding n0 delivered_notification[OF assms(5)] using bad by simp
      have s: "set addrs
          = {u_email u | u k. k \<in> set (r # rs) \<and> get_user st k = Some u
               \<and> u_email u \<noteq> [] \<and> \<not> multi_line (u_email u)} - set seen"
        unfolding a(3) using bad su by auto
      show ?thesis
        using n a(2) s by blast
    next
      case good: False
      have n: "notify_subscribers st a (r # rs) seen
          = map (\<lambda>x. NewArticleNotificationEmail x (a_id a)) (u_email su # addrs)"
        unfolding n0 delivered_notification[OF assms(5)] using good by simp
      have d: "distinct (u_email su # addrs)"
        using a(2,3) by simp
      have s: "set (u_email su # addrs)
          = {u_email u | u k. k \<in> set (r # rs) \<and> get_user st k = Some u
               \<and> u_email u \<noteq> [] \<and> \<not> multi_line (u_email u)} - set seen"
        unfolding list.set a(3) using False good su by auto
      show ?thesis
        using n d s by blast
    qed
  qed
qed

lemma send_article_approval_notification_outbox:
  assumes "get_journalist st (a_journalist a) = Some j" "get_user st (j_user j) = Some ju"
  shows "send_article_approval_notification st a
     = st\<lparr>outbox := outbox st @
            delivered (a_title a) (ArticleStatusEmail (u_email ju) (a_id a) (a_status a))\<rparr>"
  using assms by (simp add: send_article_approval_notification_def)

lemma send_article_subscriber_notifications_outbox:
  assumes "a_status a = Approved"
    and "get_journalist st (a_journalist a) = Some j" "get_publisher st (a_publisher a) = Some p"
  shows "send_article_subscriber_notifications st a
     = st\<lparr>outbox := outbox st @
            notify_subscribers st a
              (map js_reader (filter (\<lambda>s. js_journalist s = a_journalist a \<and> js_is_active s)
                                (journalist_subscriptions st))
               @ map ps_reader (filter (\<lambda>s. ps_publisher s = a_publisher a \<and> ps_is_active s)
                                  (publisher_subscriptions st))) []\<rparr>"
  using assms get_journalist_id[OF assms(2)] get_publisher_id[OF assms(3)]
  by (simp add: send_article_subscriber_notifications_def)

text \<open>
  The view \<open>approve_article\<close>. Let an editor whose profile has the article's publisher
  approve an article whose title has no line break, the article's journalist, the
  journalist's user and the publisher being rows, in a database where the reader of every
  subscription row is a user. Then the mail handed to the backend is the status message
  to the journalist (when the journalist's address can be written to) followed by one
  notification of the article to each address of a list without repetition; the
  addresses of that list are exactly the addresses, not blank and of one line, of the
  readers of the active journalist subscriptions to the article's journalist and of the
  active publisher subscriptions to the article's publisher. No notification of
  subscribers is sent for an article that is not approved; rejecting sends the status
  message only.
\<close>

theorem approval_fan_out:
  assumes "get_user st uid = Some ed" "u_role ed = Editor"
    and "editor_profile st uid = Some e" "get_article st pk = Some a"
    and "e_publisher e = a_publisher a"
    and "get_journalist st (a_journalist a) = Some j" "get_user st (j_user j) = Some ju"
    and "get_publisher st (a_publisher a) = Some p"
    and "readers_exist st"
    and "\<not> multi_line (a_title a)"
  shows "(\<exists>addrs. outbox (fst (approve_article st uid pk))
              = outbox st @ delivered (a_title a) (ArticleStatusEmail (u_email ju) pk Approved)
                  @ map (\<lambda>x. NewArticleNotificationEmail x pk) addrs
          \<and> distinct addrs
          \<and> set addrs
              = {u_email r | r s. s \<in> set (journalist_subscriptions st)
                     \<and> js_journalist s = a_journalist a \<and> js_is_active s
                     \<and> get_user st (js_reader s) = Some r
                     \<and> u_email r \<noteq> [] \<and> \<not> multi_line (u_email r)}
                \<union> {u_email r | r s. s \<in> set (publisher_subscriptions st)
                     \<and> ps_publisher s = a_publisher a \<and> ps_is_active s
                     \<and> get_user st (ps_reader s) = Some r
                     \<and> u_email r \<noteq> [] \<and> \<not> multi_line (u_email r)})
     \<and> (\<forall>st' a'. a_status a' \<noteq> Approved \<longrightarrow>
           send_article_subscriber_notifications st' a' = st')
     \<and> outbox (fst (reject_article st uid pk))
         = outbox st @ delivered (a_title a) (ArticleStatusEmail (u_email ju) pk Rejected)"
proof -
  have k: "a_id a = pk"
    using assms(4) by (rule get_article_id)
  let ?a = "a\<lparr>a_status := Approved\<rparr>"
  let ?st1 = "article_save st ?a"
  let ?st2 = "?st1\<lparr>outbox := outbox ?st1 @
                 delivered (a_title a) (ArticleStatusEmail (u_email ju) pk Approved)\<rparr>"
  let ?rs = "map js_reader (filter (\<lambda>s. js_journalist s = a_journalist a \<and> js_is_active s)
                                (journalist_subscriptions st))
               @ map ps_reader (filter (\<lambda>s. ps_publisher s = a_publisher a \<and> ps_is_active s)
                                  (publisher_subscriptions st))"
  have t: "\<not> multi_line (a_title ?a)"
    using assms(10) by simp
  have l1: "get_journalist ?st1 (a_journalist ?a) = Some j" "get_user ?st1 (j_user j) = Some ju"
    using assms(6,7) by (simp_all add: article_save_def get_journalist_def get_user_def)
  have s2: "send_article_approval_notification ?st1 ?a = ?st2"
    using send_article_approval_notification_outbox[OF l1] k by simp
  have l2: "get_journalist ?st2 (a_journalist ?a) = Some j"
    "get_publisher ?st2 (a_publisher ?a) = Some p"
    using assms(6,8) by (simp_all add: article_save_def get_journalist_def get_publisher_def)
  have n: "notify_subscribers ?st2 ?a ?rs [] = notify_subscribers st ?a ?rs []"
    by (rule notify_subscribers_cong) (simp_all add: article_save_def)
  have s3: "send_article_subscriber_notifications ?st2 ?a
      = ?st2\<lparr>outbox := outbox ?st2 @ notify_subscribers st ?a ?rs []\<rparr>"
    using send_article_subscriber_notifications_outbox[OF _ l2] n
    by (simp add: article_save_def)
  have ap: "outbox (fst (approve_article st uid pk))
      = outbox st @ delivered (a_title a) (ArticleStatusEmail (u_email ju) pk Approved)
          @ notify_subscribers st ?a ?rs []"
    using assms(1-5) s2 s3
    by (simp add: approve_article_def Let_def article_save_def)
  have ex: "\<forall>r \<in> set ?rs. get_user st r \<noteq> None"
  proof
    fix r assume "r \<in> set ?rs"
    then have "\<exists>u \<in> set (users st). u_id u = r"
      using assms(9) by (auto simp: readers_exist_def)
    then show "get_user st r \<noteq> None"
      by (auto simp: get_user_def find_None_iff)
  qed
  have j': "get_journalist st (a_journalist ?a) = Some j"
    "get_publisher st (a_publisher ?a) = Some p"
    using assms(6,8) by simp_all
  from notify_subscribers_addresses[OF ex j'(1) assms(7) j'(2) t, of "[]"] k
  obtain addrs where ad: "notify_subscribers st ?a ?rs []
        = map (\<lambda>x. NewArticleNotificationEmail x pk) addrs"
    "distinct addrs"
    "set addrs = {u_email u | u k. k \<in> set ?rs \<and> get_user st k = Some u
                    \<and> u_email u \<noteq> [] \<and> \<not> multi_line (u_email u)}"
    by auto
  have se: "{u_email u | u k. k \<in> set ?rs \<and> get_user st k = Some u
                    \<and> u_email u \<noteq> [] \<and> \<not> multi_line (u_email u)}
      = {u_email r | r s. s \<in> set (journalist_subscriptions st)
                     \<and> js_journalist s = a_journalist a \<and> js_is_active s
                     \<and> get_user st (js_reader s) = Some r
                     \<and> u_email r \<noteq> [] \<and> \<not> multi_line (u_email r)}
                \<union> {u_email r | r s. s \<in> set (publisher_subscriptions st)
                     \<and> ps_publisher s = a_publisher a \<and> ps_is_active s
                     \<and> get_user st (ps_reader s) = Some r
                     \<and> u_email r \<noteq> [] \<and> \<not> multi_line (u_email r)}"
    by auto
  have c1: "\<exists>addrs. outbox (fst (approve_article st uid pk))
              = outbox st @ delivered (a_title a) (ArticleStatusEmail (u_email ju) pk Approved)
                  @ map (\<lambda>x. NewArticleNotificationEmail x pk) addrs
          \<and> distinct addrs
          \<and> set addrs
              = {u_email r | r s. s \<in> set (journalist_subscriptions st)
                     \<and> js_journalist s = a_journalist a \<and> js_is_active s
                     \<and> get_user st (js_reader s) = Some r
                     \<and> u_email r \<noteq> [] \<and> \<not> multi_line (u_email r)}
                \<union> {u_email r | r s. s \<in> set (publisher_subscriptions st)
                     \<and> ps_publisher s = a_publisher a \<and> ps_is_active s
                     \<and> get_user st (ps_reader s) = Some r
                     \<and> u_email r \<noteq> [] \<and> \<not> multi_line (u_email r)}"
  proof (intro exI[of _ addrs] conjI)
    show "outbox (fst (approve_article st uid pk))
              = outbox st @ delivered (a_title a) (ArticleStatusEmail (u_email ju) pk Approved)
                  @ map (\<lambda>x. NewArticleNotificationEmail x pk) addrs"
      unfolding ap ad(1) ..
    show "distinct addrs"
      by (rule ad(2))
    show "set addrs
              = {u_email r | r s. s \<in> set (journalist_subscriptions st)
                     \<and> js_journalist s = a_journalist a \<and> js_is_active s
                     \<and> get_user st (js_reader s) = Some r
                     \<and> u_email r \<noteq> [] \<and> \<not> multi_line (u_email r)}
                \<union> {u_email r | r s. s \<in> set (publisher_subscriptions st)
                     \<and> ps_publisher s = a_publisher a \<and> ps_is_active s
                     \<and> get_user st (ps_reader s) = Some r
                     \<and> u_email r \<noteq> [] \<and> \<not> multi_line (u_email r)}"
      unfolding ad(3) se ..
  qed
  have c2: "\<forall>st' a'. a_status a' \<noteq> Approved \<longrightarrow>
           send_article_subscriber_notifications st' a' = st'"
    by (simp add: send_article_subscriber_notifications_def)
  let ?r = "a\<lparr>a_status := Rejected\<rparr>"
  let ?rt1 = "article_save st ?r"
  have r1: "get_journalist ?rt1 (a_journalist ?r) = Some j" "get_user ?rt1 (j_user j) = Some ju"
    using assms(6,7) by (simp_all add: article_save_def get_journalist_def get_user_def)
  have c3: "outbox (fst (reject_article st uid pk))
         = outbox st @ delivered (a_title a) (ArticleStatusEmail (u_email ju) pk Rejected)"
    using assms(1-5) send_article_approval_notification_outbox[OF r1] k
    by (simp add: reject_article_def Let_def article_save_def)
  show ?thesis
    apply (intro conjI)
      apply (rule c1)
     apply (rule c2)
    apply (rule c3)
    done
qed

theorem approval_fan_out_witness:
  "get_user example_db 3 = Some carol \<and> u_role carol = Editor
   \<and> editor_profile example_db 3 = Some \<lparr>e_id = 1, e_user = 3, e_publisher = 1\<rparr>
   \<and> get_article example_db 2 = Some article2
   \<and> get_journalist example_db (a_journalist article2)
       = Some \<lparr>j_id = 1, j_user = 2, j_publisher = 1\<rparr>
   \<and> get_user example_db 2 = Some bob
   \<and> get_publisher example_db (a_publisher article2)
       = Some \<lparr>p_id = 1, p_user = 4, p_name = ''Acme''\<rparr>
   \<and> readers_exist example_db
   \<and> \<not> multi_line (a_title article2)
   \<and> outbox (fst (approve_article example_db 3 2))
       = [ArticleStatusEmail ''bob@example.com'' 2 Approved,
          NewArticleNotificationEmail ''alice@example.com'' 2]
   \<and> outbox (fst (reject_article example_db 3 2))
       = [ArticleStatusEmail ''bob@example.com'' 2 Rejected]"
proof -
  have h: "get_user example_db 3 = Some carol" "u_role carol = Editor"
    "editor_profile example_db 3 = Some \<lparr>e_id = 1, e_user = 3, e_publisher = 1\<rparr>"
    "get_article example_db 2 = Some article2"
    "e_publisher \<lparr>e_id = 1, e_user = 3, e_publisher = 1\<rparr> = a_publisher article2"
    "get_journalist example_db (a_journalist article2)
       = Some \<lparr>j_id = 1, j_user = 2, j_publisher = 1\<rparr>"
    "get_user example_db (j_user \<lparr>j_id = 1, j_user = 2, j_publisher = 1\<rparr>) = Some bob"
    "get_publisher example_db (a_publisher article2)
       = Some \<lparr>p_id = 1, p_user = 4, p_name = ''Acme''\<rparr>"
    "readers_exist example_db"
    "\<not> multi_line (a_title article2)"
    by (simp_all add: get_user_def editor_profile_def get_article_def get_journalist_def
        get_publisher_def readers_exist_def multi_line_def example_defs)
  have s: "{u_email r | r s. s \<in> set (journalist_subscriptions example_db)
                     \<and> js_journalist s = a_journalist article2 \<and> js_is_active s
                     \<and> get_user example_db (js_reader s) = Some r
                     \<and> u_email r \<noteq> [] \<and> \<not> multi_line (u_email r)}
                \<union> {u_email r | r s. s \<in> set (publisher_subscriptions example_db)
                     \<and> ps_publisher s = a_publisher article2 \<and> ps_is_active s
                     \<and> get_user example_db (ps_reader s) = Some r
                     \<and> u_email r \<noteq> [] \<and> \<not> multi_line (u_email r)}
      = {''alice@example.com''}"
    by (auto simp: get_user_def multi_line_def example_defs)
  have o: "outbox example_db = []" "u_email bob = ''bob@example.com''"
    "delivered (a_title article2) (ArticleStatusEmail ''bob@example.com'' 2 Approved)
       = [ArticleStatusEmail ''bob@example.com'' 2 Approved]"
    "delivered (a_title article2) (ArticleStatusEmail ''bob@example.com'' 2 Rejected)
       = [ArticleStatusEmail ''bob@example.com'' 2 Rejected]"
    by (simp_all add: delivered_def multi_line_def example_defs)
  from approval_fan_out[OF h] obtain addrs where
    a: "outbox (fst (approve_article example_db 3 2))
              = outbox example_db
                  @ delivered (a_title article2) (ArticleStatusEmail (u_email bob) 2 Approved)
                  @ map (\<lambda>x. NewArticleNotificationEmail x 2) addrs"
    "distinct addrs" "set addrs = {''alice@example.com''}"
    and r: "outbox (fst (reject_article example_db 3 2))
         = outbox example_db
             @ delivered (a_title article2) (ArticleStatusEmail (u_email bob) 2 Rejected)"
    unfolding s by blast
  have "length addrs = 1"
    using distinct_card[OF a(2)] a(3) by simp
  then obtain y where "addrs = [y]"
    by (cases addrs) auto
  with a(3) have "addrs = [''alice@example.com'']"
    by simp
  then show ?thesis
    using a(1) r h o by simp
qed

text \<open>
  Claim C9 says that approving an article sends the status message to the journalist and
  one notification to each address of the readers with an active subscription to the
  article's journalist or publisher. The view \<open>approve_article\<close> does so; the admin's bulk
  action \<open>approve_articles\<close> approves as well and sends nothing. In the example database
  article 2 is pending and alice holds an active subscription to its journalist: the
  view, called by the editor carol, hands the status message to bob and the notification
  to alice to the backend; the bulk action on the same article sets it approved and
  hands nothing to the backend.
\<close>

theorem approved_without_fan_out:
  "map_option a_status (get_article example_db 2) = Some Pending
   \<and> map_option a_journalist (get_article example_db 2) = Some 1
   \<and> \<lparr>js_reader = 1, js_journalist = 1, js_is_active = True\<rparr>
       \<in> set (journalist_subscriptions example_db)
   \<and> map_option a_status (get_article (fst (approve_article example_db 3 2)) 2) = Some Approved
   \<and> outbox (fst (approve_article example_db 3 2))
       = [ArticleStatusEmail ''bob@example.com'' 2 Approved,
          NewArticleNotificationEmail ''alice@example.com'' 2]
   \<and> map_option a_status (get_article (approve_articles example_db [2]) 2) = Some Approved
   \<and> outbox (approve_articles example_db [2]) = []"
proof -
  have p: "map_option a_status (get_article example_db 2) = Some Pending"
    "map_option a_journalist (get_article example_db 2) = Some 1"
    "\<lparr>js_reader = 1, js_journalist = 1, js_is_active = True\<rparr>
       \<in> set (journalist_subscriptions example_db)"
    by (simp_all add: get_article_def example_defs)
  have b: "map_option a_status (get_article (approve_articles example_db [2]) 2) = Some Approved"
    "outbox (approve_articles example_db [2]) = []"
    by (simp_all add: approve_articles_def get_article_def example_defs)
  have v: "map_option a_status (get_article (fst (approve_article example_db 3 2)) 2)
      = Some Approved"
    by (simp add: approve_article_def Let_def article_save_def get_user_def
        editor_profile_def get_article_def send_article_approval_notification_def
        send_article_subscriber_notifications_def get_journalist_def get_publisher_def
        example_defs)
  have o: "outbox (fst (approve_article example_db 3 2))
       = [ArticleStatusEmail ''bob@example.com'' 2 Approved,
          NewArticleNotificationEmail ''alice@example.com'' 2]"
    by (simp add: approve_article_def Let_def article_save_def get_user_def
        editor_profile_def get_article_def send_article_approval_notification_def
        send_article_subscriber_notifications_def get_journalist_def get_publisher_def
        build_new_article_notification_email_def delivered_def multi_line_def
        example_defs)
  show ?thesis
    using p b v o by simp
qed

end
